theory Spec2Isabelle
  imports Main "HOL-Library.AList" "HOL-Library.Log_Nat"
begin

section \<open>Expanding a climatology into forecasts: the embedding\<close>

text \<open>
  The script \<^verbatim>\<open>scripts/wb2_expand_climatology.py\<close> has two functions:
  \<^verbatim>\<open>select_climatology\<close>, which looks the climatology up for one slice of the
  output time index, and \<^verbatim>\<open>main\<close>, which builds the time index, the template, the
  chunk size, the chunk layout of the output and the list of work items, sets the
  writer up and runs the selector on every work item. Both are embedded below,
  statement by statement. Exceptions are values: a function that may raise returns
  \<open>error + 'a\<close>, with \<open>Inl\<close> the exception. The calls into pandas, xarray and the
  writer are embedded by what they return and when they raise; reading the flags,
  opening the input and the bytes written to the output are outside the embedding.
\<close>

subsection \<open>Exceptions\<close>

text \<open>
  The exceptions of Python, pandas and the writer that the script can meet. The
  argument of \<open>KeyError\<close> is the missing key or the message of the exception.
\<close>

datatype error =
    IndexError
  | KeyError string
  | InvalidIndexError
  | ZeroDivisionError
  | OverflowError
  | ValueError

subsection \<open>Timestamps and the calendar accessors\<close>

text \<open>
  A timestamp is its count of nanoseconds since 1970-01-01T00:00, as in
  \<^verbatim>\<open>pandas.Timestamp.value\<close>; the two flags \<^verbatim>\<open>time_start\<close> and \<^verbatim>\<open>time_stop\<close> are taken
  after parsing. \<open>Timedelta_1h\<close> is \<^verbatim>\<open>pd.Timedelta('1h')\<close>.
\<close>

definition Timedelta_1h :: int where
  "Timedelta_1h = 3600000000000"

definition Timedelta_1d :: int where
  "Timedelta_1d = 24 * Timedelta_1h"

text \<open>
  The proleptic Gregorian calendar: \<open>days_to_year y\<close> is the day count (since
  1970-01-01) of the first of January of year \<open>y\<close>, \<open>year_of_days d\<close> the year that day
  \<open>d\<close> falls in. \<open>dt_dayofyear\<close> and \<open>dt_hour\<close> are the accessors \<^verbatim>\<open>.dt.dayofyear\<close>
  (1 to 366) and \<^verbatim>\<open>.dt.hour\<close> (0 to 23).
\<close>

definition days_to_year :: "int \<Rightarrow> int" where
  "days_to_year y =
     (let p = y - 1 in 365 * p + p div 4 - p div 100 + p div 400 - 719162)"

definition year_of_days :: "int \<Rightarrow> int" where
  "year_of_days d =
     (let z = d + 719468;
          era = z div 146097;
          doe = z mod 146097;
          yoe = (doe - doe div 1460 + doe div 36524 - doe div 146096) div 365;
          doy = doe - (365 * yoe + yoe div 4 - yoe div 100);
          mp = (5 * doy + 2) div 153
      in yoe + era * 400 + (if mp < 10 then 0 else 1))"

definition dt_dayofyear :: "int \<Rightarrow> int" where
  "dt_dayofyear t =
     (let d = t div Timedelta_1d in d - days_to_year (year_of_days d) + 1)"

definition dt_hour :: "int \<Rightarrow> int" where
  "dt_hour t = (t mod Timedelta_1d) div Timedelta_1h"

subsection \<open>The time index\<close>

text \<open>
  \<^verbatim>\<open>pd.date_range(start, stop, freq=f)\<close> for a fixed frequency of whole hours: the
  timestamps \<open>start + k * f\<close> that do not pass \<open>stop\<close>, none when \<open>stop\<close> lies on the
  wrong side of \<open>start\<close>. The library computes the end of the range by a floor
  division by the stride, which raises for a stride of zero.
\<close>

definition date_range :: "int \<Rightarrow> int \<Rightarrow> int \<Rightarrow> error + int list" where
  "date_range t0 t1 freq =
     (if freq = 0 then Inl ZeroDivisionError
      else Inr (map (\<lambda>k. t0 + int k * freq) [0 ..< nat ((t1 - t0) div freq + 1)]))"

subsection \<open>Slices\<close>

text \<open>
  \<^verbatim>\<open>slice(start, stop)\<close> with integer bounds and no step. \<open>slice_indices s n\<close> are the
  bounds the slice resolves to on a sequence of length \<open>n\<close> (Python's
  \<^verbatim>\<open>slice.indices\<close>): a negative bound counts from the end, and both are clipped to
  the sequence. \<open>getitem_slice xs s\<close> is \<^verbatim>\<open>xs[s]\<close>.
\<close>

datatype slice = Slice (slice_start: int) (slice_stop: int)

definition clip_bound :: "nat \<Rightarrow> int \<Rightarrow> nat" where
  "clip_bound n i = (if i < 0 then nat (max 0 (i + int n)) else nat (min i (int n)))"

definition slice_indices :: "slice \<Rightarrow> nat \<Rightarrow> nat \<times> nat" where
  "slice_indices s n = (clip_bound n (slice_start s), clip_bound n (slice_stop s))"

definition getitem_slice :: "'a list \<Rightarrow> slice \<Rightarrow> 'a list" where
  "getitem_slice xs s =
     (case slice_indices s (length xs) of (a, b) \<Rightarrow> take (b - a) (drop a xs))"

subsection \<open>Datasets\<close>

text \<open>
  The climatology is a dataset indexed by \<open>dayofyear\<close> and, optionally, by \<open>hour\<close>:
  \<open>clim_dayofyear\<close> holds the labels of the day-of-year index, \<open>clim_hour\<close> those of
  the hour coordinate when the dataset has one (\<^verbatim>\<open>'hour' in climatology.coords\<close> is
  \<open>clim_hour c \<noteq> None\<close>), \<open>clim_other_coords\<close> the names of its other coordinates
  (latitude, level and so on). Every data variable is stored by position: first
  along \<open>dayofyear\<close>, then along \<open>hour\<close> (a single column when there is no hour
  coordinate); a value of type \<open>'a\<close> is the block of the variable over all other
  dimensions, which no step of the script looks into.

  The result of a lookup is a dataset along the new dimension \<open>time\<close>: the names of
  its coordinates, the timestamps, and one value per timestamp for every variable.
\<close>

record 'a climatology =
  clim_dayofyear :: "int list"
  clim_hour :: "int list option"
  clim_other_coords :: "string list"
  clim_vars :: "(string \<times> 'a list list) list"

record 'a dataset =
  ds_coords :: "string list"
  ds_time :: "int list"
  ds_vars :: "(string \<times> 'a list) list"

definition coords_of :: "'a climatology \<Rightarrow> string list" where
  "coords_of c =
     ''dayofyear'' # (case clim_hour c of None \<Rightarrow> [] | Some _ \<Rightarrow> [''hour''])
       @ clim_other_coords c"

text \<open>
  The two periodic coordinates have their own fields, so a well-formed climatology
  does not list them among its other coordinates.
\<close>

definition wf_climatology :: "'a climatology \<Rightarrow> bool" where
  "wf_climatology c \<longleftrightarrow>
     ''dayofyear'' \<notin> set (clim_other_coords c) \<and> ''hour'' \<notin> set (clim_other_coords c)"

text \<open>
  \<^verbatim>\<open>xbeam.Key(offsets, vars)\<close>: the offset of the fragment along each chunked
  dimension and the set of variables it holds.
\<close>

record key =
  key_offsets :: "(string \<times> int) list"
  key_vars :: "string set"

subsection \<open>Label-based selection\<close>

text \<open>
  \<open>index_of index x\<close> is the position of the label \<open>x\<close> in an index whose labels are
  all different. \<open>sel_positions\<close> resolves a whole array of labels, as \<^verbatim>\<open>Dataset.sel\<close>
  does for an array indexer without a \<^verbatim>\<open>method\<close>. The lookup goes through
  \<^verbatim>\<open>pandas.Index.get_indexer\<close>, which first refuses an index with a repeated label
  (\<^verbatim>\<open>InvalidIndexError\<close>); after that a single label that is not in the index makes the
  lookup raise \<^verbatim>\<open>KeyError("not all values found in index ...")\<close>.
\<close>

fun index_of :: "int list \<Rightarrow> int \<Rightarrow> nat option" where
  "index_of [] x = None"
| "index_of (y # ys) x = (if x = y then Some 0 else map_option Suc (index_of ys x))"

definition sel_positions :: "string \<Rightarrow> int list \<Rightarrow> int list \<Rightarrow> error + nat list" where
  "sel_positions name index labels =
     (if \<not> distinct index then Inl InvalidIndexError
      else
        (case those (map (index_of index) labels) of
           None \<Rightarrow> Inl (KeyError (''not all values found in index '' @ name))
         | Some ps \<Rightarrow> Inr ps))"

text \<open>
  \<^verbatim>\<open>climatology.sel(dayofyear=..., hour=...)\<close> with indexers along \<open>time\<close>: the result
  keeps every coordinate of the climatology (the two periodic ones now hold the
  selected labels along \<open>time\<close>) and gains the coordinate \<open>time\<close> of the indexers.
  \<open>sel_dayofyear\<close> is the call with the day-of-year indexer alone.
\<close>

definition sel_dayofyear_hour ::
  "'a climatology \<Rightarrow> int list \<Rightarrow> int list \<Rightarrow> int list \<Rightarrow> error + 'a dataset" where
  "sel_dayofyear_hour c chunk_times days hours =
     (case sel_positions ''dayofyear'' (clim_dayofyear c) days of
        Inl e \<Rightarrow> Inl e
      | Inr is \<Rightarrow>
          (case sel_positions ''hour'' (case clim_hour c of None \<Rightarrow> [] | Some hs \<Rightarrow> hs) hours of
             Inl e \<Rightarrow> Inl e
           | Inr js \<Rightarrow>
               Inr \<lparr>ds_coords = coords_of c @ [''time''],
                    ds_time = chunk_times,
                    ds_vars = map (\<lambda>(name, v). (name, map (\<lambda>(i, j). v ! i ! j) (zip is js)))
                                (clim_vars c)\<rparr>))"

definition sel_dayofyear ::
  "'a climatology \<Rightarrow> int list \<Rightarrow> int list \<Rightarrow> error + 'a dataset" where
  "sel_dayofyear c chunk_times days =
     (case sel_positions ''dayofyear'' (clim_dayofyear c) days of
        Inl e \<Rightarrow> Inl e
      | Inr is \<Rightarrow>
          Inr \<lparr>ds_coords = coords_of c @ [''time''],
               ds_time = chunk_times,
               ds_vars = map (\<lambda>(name, v). (name, map (\<lambda>i. v ! i ! 0) is)) (clim_vars c)\<rparr>)"

text \<open>
  \<^verbatim>\<open>del chunk.coords[name]\<close> raises \<^verbatim>\<open>KeyError\<close> when the dataset has no coordinate of
  that name. \<open>getitem_var ds name\<close> is \<^verbatim>\<open>ds[[name]]\<close>, the dataset restricted to the
  one listed variable; it raises \<^verbatim>\<open>KeyError\<close> for a name the dataset does not have.
\<close>

definition del_coord :: "string \<Rightarrow> 'a dataset \<Rightarrow> error + 'a dataset" where
  "del_coord name ds =
     (if name \<in> set (ds_coords ds)
      then Inr (ds\<lparr>ds_coords := removeAll name (ds_coords ds)\<rparr>)
      else Inl (KeyError name))"

definition getitem_var :: "'a dataset \<Rightarrow> string \<Rightarrow> error + 'a dataset" where
  "getitem_var ds name =
     (case map_of (ds_vars ds) name of
        None \<Rightarrow> Inl (KeyError name)
      | Some v \<Rightarrow> Inr (ds\<lparr>ds_vars := [(name, v)]\<rparr>))"

subsection \<open>\<^verbatim>\<open>select_climatology\<close>\<close>

text \<open>
  The generator is embedded as the list of the pairs it yields; an exception raised
  on the way is the result \<open>Inl\<close>. \<open>lookup_chunk\<close> is the \<^verbatim>\<open>if\<close> statement of lines
  65 to 73 with its two branches, \<open>emit\<close> the loop of lines 75 to 77 over the names
  of the data variables, and \<open>select_climatology\<close> the whole function.
\<close>

definition lookup_chunk :: "'a climatology \<Rightarrow> int list \<Rightarrow> error + 'a dataset" where
  "lookup_chunk climatology chunk_times =
     (if clim_hour climatology \<noteq> None then
        (case sel_dayofyear_hour climatology chunk_times
                (map dt_dayofyear chunk_times) (map dt_hour chunk_times) of
           Inl e \<Rightarrow> Inl e
         | Inr chunk \<Rightarrow>
             (case del_coord ''dayofyear'' chunk of
                Inl e \<Rightarrow> Inl e
              | Inr chunk' \<Rightarrow> del_coord ''hour'' chunk'))
      else
        (case sel_dayofyear climatology chunk_times (map dt_dayofyear chunk_times) of
           Inl e \<Rightarrow> Inl e
         | Inr chunk \<Rightarrow> del_coord ''hour'' chunk))"

definition Key :: "(string \<times> int) list \<Rightarrow> string set \<Rightarrow> key" where
  "Key offs vs = \<lparr>key_offsets = offs, key_vars = vs\<rparr>"

fun emit :: "slice \<Rightarrow> 'a dataset \<Rightarrow> string list \<Rightarrow> error + (key \<times> 'a dataset) list" where
  "emit time_slice chunk [] = Inr []"
| "emit time_slice chunk (variable_name # names) =
     (case getitem_var chunk variable_name of
        Inl e \<Rightarrow> Inl e
      | Inr fragment \<Rightarrow>
          (case emit time_slice chunk names of
             Inl e \<Rightarrow> Inl e
           | Inr rest \<Rightarrow>
               Inr ((Key [(''time'', slice_start time_slice)] {variable_name}, fragment) # rest)))"

definition select_climatology ::
  "slice \<Rightarrow> 'a climatology \<Rightarrow> int list \<Rightarrow> error + (key \<times> 'a dataset) list" where
  "select_climatology time_slice climatology time_index =
     (let chunk_times = getitem_slice time_index time_slice in
      case lookup_chunk climatology chunk_times of
        Inl e \<Rightarrow> Inl e
      | Inr chunk \<Rightarrow> emit time_slice chunk (map fst (ds_vars chunk)))"

subsection \<open>\<^verbatim>\<open>main\<close>\<close>

text \<open>
  The flags the computation reads, the time stamps already parsed. \<open>input_chunks\<close>,
  the second result of \<^verbatim>\<open>xbeam.open_zarr\<close>, is a dictionary from dimension names to
  chunk extents, kept as an association list in insertion order.
\<close>

record flags =
  TIME_START :: int
  TIME_STOP :: int
  TIME_CHUNK_SIZE :: "int option"

text \<open>
  Lines 83 to 88: the period step in hours and the periodic dimensions.
  \<^verbatim>\<open>climatology.hour[1]\<close> and \<^verbatim>\<open>climatology.hour[0]\<close> are positional reads, which
  raise \<^verbatim>\<open>IndexError\<close> past the end of the coordinate.
\<close>

definition getitem :: "'a list \<Rightarrow> nat \<Rightarrow> error + 'a" where
  "getitem xs i = (if i < length xs then Inr (xs ! i) else Inl IndexError)"

definition hour_delta_time_dims :: "'a climatology \<Rightarrow> error + (int \<times> string list)" where
  "hour_delta_time_dims climatology =
     (case clim_hour climatology of
        None \<Rightarrow> Inr (24, [''dayofyear''])
      | Some hour \<Rightarrow>
          (case getitem hour 1 of
             Inl e \<Rightarrow> Inl e
           | Inr h1 \<Rightarrow>
               (case getitem hour 0 of
                  Inl e \<Rightarrow> Inl e
                | Inr h0 \<Rightarrow> Inr (h1 - h0, [''hour'', ''dayofyear'']))))"

text \<open>
  Lines 94 to 98: the template of the output. \<^verbatim>\<open>isel\<close> takes position 0 along every
  periodic dimension and drops it, which raises \<^verbatim>\<open>IndexError\<close> on a dimension of
  length 0; \<^verbatim>\<open>expand_dims(time=times)\<close> adds the dimension \<open>time\<close> with the time index
  as its coordinate, and raises \<^verbatim>\<open>ValueError\<close> when the dataset already has a
  coordinate of that name. The template has no data: it records the coordinates,
  the time index and the names of the variables.
\<close>

record template =
  tmpl_coords :: "string list"
  tmpl_time :: "int list"
  tmpl_vars :: "string list"

definition dim_size :: "'a climatology \<Rightarrow> string \<Rightarrow> nat" where
  "dim_size climatology name =
     (if name = ''dayofyear'' then length (clim_dayofyear climatology)
      else if name = ''hour'' then (case clim_hour climatology of None \<Rightarrow> 0 | Some hs \<Rightarrow> length hs)
      else 0)"

definition make_template :: "'a climatology \<Rightarrow> string list \<Rightarrow> int list \<Rightarrow> error + template" where
  "make_template climatology time_dims time_index =
     (if \<exists>name \<in> set time_dims. dim_size climatology name = 0 then Inl IndexError
      else if ''time'' \<in> set (clim_other_coords climatology) then Inl ValueError
      else Inr \<lparr>tmpl_coords = clim_other_coords climatology @ [''time''],
                tmpl_time = time_index,
                tmpl_vars = map fst (clim_vars climatology)\<rparr>)"

text \<open>
  Lines 100 to 103: the chunk size. \<^verbatim>\<open>input_chunks['dayofyear']\<close> raises \<^verbatim>\<open>KeyError\<close>
  when the key is missing; \<^verbatim>\<open>input_chunks.get('hour', 1)\<close> does not.
\<close>

definition resolve_time_chunk_size :: "int option \<Rightarrow> (string \<times> int) list \<Rightarrow> error + int" where
  "resolve_time_chunk_size flag input_chunks =
     (case flag of
        None \<Rightarrow>
          (case map_of input_chunks ''dayofyear'' of
             None \<Rightarrow> Inl (KeyError ''dayofyear'')
           | Some d \<Rightarrow>
               Inr (d * (case map_of input_chunks ''hour'' of None \<Rightarrow> 1 | Some h \<Rightarrow> h)))
      | Some n \<Rightarrow> Inr n)"

text \<open>
  Line 105: \<^verbatim>\<open>math.ceil(times.size / time_chunk_size)\<close>. The division of two Python
  integers gives a double: the exact quotient, rounded to the nearest double, ties
  to even; it raises \<^verbatim>\<open>ZeroDivisionError\<close> for a zero divisor and \<^verbatim>\<open>OverflowError\<close>
  when the rounded quotient is \<open>2 ^ 1024\<close> or more. \<^verbatim>\<open>math.ceil\<close> then gives the
  ceiling of that double as an integer.

  For positive \<open>a\<close> and \<open>b\<close>, \<open>floor_log2_ratio a b\<close> is the exponent \<open>e\<close> with
  \<open>2 ^ e \<le> a / b < 2 ^ (e + 1)\<close>. The doubles of that size are the multiples of
  \<open>2 ^ k\<close> with \<open>k = max (e - 52) (- 1074)\<close>, and \<open>round_half_even\<close> picks the nearest
  multiple: \<open>double_of_ratio a b = (m, k)\<close> stands for the double \<open>m * 2 ^ k\<close>.
  \<open>ceil_div\<close> is the exact ceiling of a quotient of integers.
\<close>

definition ceil_div :: "int \<Rightarrow> int \<Rightarrow> int" where
  "ceil_div a b = - ((- a) div b)"

definition floor_log2_ratio :: "int \<Rightarrow> int \<Rightarrow> int" where
  "floor_log2_ratio a b =
     (let d = bitlen a - bitlen b
      in if b * 2 ^ nat d \<le> a * 2 ^ nat (- d) then d else d - 1)"

definition round_half_even :: "int \<Rightarrow> int \<Rightarrow> int" where
  "round_half_even num den =
     (let q = num div den; r = num mod den
      in if 2 * r < den then q
         else if den < 2 * r then q + 1
         else if even q then q else q + 1)"

definition double_of_ratio :: "int \<Rightarrow> int \<Rightarrow> int \<times> int" where
  "double_of_ratio a b =
     (let k = max (floor_log2_ratio a b - 52) (- 1074)
      in (round_half_even (a * 2 ^ nat (- k)) (b * 2 ^ nat k), k))"

definition true_div_ceil :: "int \<Rightarrow> int \<Rightarrow> error + int" where
  "true_div_ceil a b =
     (if b = 0 then Inl ZeroDivisionError
      else if a = 0 then Inr 0
      else
        (case double_of_ratio \<bar>a\<bar> \<bar>b\<bar> of
           (m, k) \<Rightarrow>
             if 2 ^ 1024 * 2 ^ nat (- k) \<le> m * 2 ^ nat k then Inl OverflowError
             else if (a < 0) = (b < 0) then Inr (ceil_div (m * 2 ^ nat k) (2 ^ nat (- k)))
             else Inr (ceil_div (- m * 2 ^ nat k) (2 ^ nat (- k)))))"

definition time_chunk_count_of :: "nat \<Rightarrow> int \<Rightarrow> error + int" where
  "time_chunk_count_of times_size time_chunk_size =
     true_div_ceil (int times_size) time_chunk_size"

text \<open>
  Lines 107 and 108: the chunk layout of the output. The comprehension keeps the
  order of \<open>input_chunks\<close>; the assignment replaces the entry of \<open>time\<close> when there is
  one and appends it otherwise.
\<close>

definition output_chunks_of :: "string list \<Rightarrow> (string \<times> int) list \<Rightarrow> int \<Rightarrow> (string \<times> int) list" where
  "output_chunks_of time_dims input_chunks time_chunk_size =
     AList.update ''time'' time_chunk_size
       (map (\<lambda>dim. (dim, - 1)) (filter (\<lambda>dim. dim \<notin> set time_dims) (map fst input_chunks)))"

text \<open>
  Lines 117 and 118: \<^verbatim>\<open>range(time_chunk_count)\<close> is empty for a count that is not
  positive; every offset becomes the slice of one work item.
\<close>

definition py_range :: "int \<Rightarrow> int list" where
  "py_range n = map int [0 ..< nat n]"

definition chunk_offsets :: "int \<Rightarrow> int \<Rightarrow> int list" where
  "chunk_offsets time_chunk_count time_chunk_size =
     map (\<lambda>i. i * time_chunk_size) (py_range time_chunk_count)"

definition offset_slice :: "int \<Rightarrow> int \<Rightarrow> slice" where
  "offset_slice time_chunk_size start = Slice start (start + time_chunk_size)"

text \<open>
  Lines 114 to 119, the run of the pipeline: the stage
  \<^verbatim>\<open>beam.FlatMap(select_climatology, climatology, times)\<close> runs the selector on the
  slice of every work item, the exception of a work item fails the run, and the
  pairs the selector yields go to the writer.
\<close>

fun flat_map_select ::
  "'a climatology \<Rightarrow> int list \<Rightarrow> slice list \<Rightarrow> error + (key \<times> 'a dataset) list" where
  "flat_map_select climatology time_index [] = Inr []"
| "flat_map_select climatology time_index (s # ss) =
     (case select_climatology s climatology time_index of
        Inl e \<Rightarrow> Inl e
      | Inr kvs \<Rightarrow>
          (case flat_map_select climatology time_index ss of
             Inl e \<Rightarrow> Inl e
           | Inr rest \<Rightarrow> Inr (kvs @ rest)))"

text \<open>
  Lines 120 to 122: \<^verbatim>\<open>xbeam.ChunksToZarr(path, template=template, zarr_chunks=...)\<close>.
  The transform is built while the pipeline is put together, before any work item
  runs, and building it sets the output store up from the template and the chunk
  layout. This raises \<^verbatim>\<open>ValueError\<close> for a chunk size below \<open>-1\<close> (\<open>-1\<close> itself stands for
  one chunk over the whole dimension) and for a template whose time index is empty.
  A chunk size of 0 never reaches this point.
\<close>

definition ChunksToZarr_init :: "template \<Rightarrow> (string \<times> int) list \<Rightarrow> error + unit" where
  "ChunksToZarr_init tmpl zarr_chunks =
     (if (\<exists>c \<in> snd ` set zarr_chunks. c < - 1) \<or> tmpl_time tmpl = []
      then Inl ValueError else Inr ())"

text \<open>
  \<open>main\<close>, from opening the climatology to the end of the pipeline. The result
  \<open>Inl\<close> is the exception that ends the run. A run that ends without one is
  described by what it has computed and done: the time index, the chunk size and
  count, the chunk layout handed to the writer, the offsets given to
  \<^verbatim>\<open>beam.Create\<close>, the slices the selector is mapped over, the template, and the
  pairs of key and fragment that reached the writer. The statements are in the
  order in which Python evaluates them: the list of offsets is built before the
  writer is set up, and the work items run after it.
\<close>

record 'a plan =
  times_index :: "int list"
  time_chunk_size :: int
  time_chunk_count :: int
  output_chunks :: "(string \<times> int) list"
  offsets :: "int list"
  slices :: "slice list"
  output_template :: template
  written :: "(key \<times> 'a dataset) list"

definition main :: "'a climatology \<Rightarrow> (string \<times> int) list \<Rightarrow> flags \<Rightarrow> error + 'a plan" where
  "main climatology input_chunks fl =
     (case hour_delta_time_dims climatology of
        Inl e \<Rightarrow> Inl e
      | Inr (hour_delta, time_dims) \<Rightarrow>
     (case date_range (TIME_START fl) (TIME_STOP fl) (hour_delta * Timedelta_1h) of
        Inl e \<Rightarrow> Inl e
      | Inr time_index \<Rightarrow>
     (case make_template climatology time_dims time_index of
        Inl e \<Rightarrow> Inl e
      | Inr tmpl \<Rightarrow>
     (case resolve_time_chunk_size (TIME_CHUNK_SIZE fl) input_chunks of
        Inl e \<Rightarrow> Inl e
      | Inr chunk_size \<Rightarrow>
     (case time_chunk_count_of (length time_index) chunk_size of
        Inl e \<Rightarrow> Inl e
      | Inr chunk_count \<Rightarrow>
     (case ChunksToZarr_init tmpl (output_chunks_of time_dims input_chunks chunk_size) of
        Inl e \<Rightarrow> Inl e
      | Inr _ \<Rightarrow>
     (case flat_map_select climatology time_index
             (map (offset_slice chunk_size) (chunk_offsets chunk_count chunk_size)) of
        Inl e \<Rightarrow> Inl e
      | Inr pairs \<Rightarrow>
          Inr \<lparr>times_index = time_index,
               time_chunk_size = chunk_size,
               time_chunk_count = chunk_count,
               output_chunks = output_chunks_of time_dims input_chunks chunk_size,
               offsets = chunk_offsets chunk_count chunk_size,
               slices = map (offset_slice chunk_size) (chunk_offsets chunk_count chunk_size),
               output_template = tmpl,
               written = pairs\<rparr>)))))))"

subsection \<open>Example inputs\<close>

text \<open>
  A six-hourly climatology with two variables over three days, a daily one, one
  whose hour coordinate has a single entry, and a twelve-hourly one that covers the
  days 1 to 365 only; their chunk extents; a few dates and time indexes. Day 17167
  after 1970-01-01 is 2017-01-01, day 17166 is 2016-12-31, the 366th day of a leap
  year.
\<close>

definition hourly_climatology :: "nat climatology" where
  "hourly_climatology =
     \<lparr>clim_dayofyear = [1, 2, 3],
      clim_hour = Some [0, 6, 12, 18],
      clim_other_coords = [''latitude''],
      clim_vars = [(''t2m'', [[1, 2, 3, 4], [5, 6, 7, 8], [9, 10, 11, 12]]),
                   (''u10'', [[21, 22, 23, 24], [25, 26, 27, 28], [29, 30, 31, 32]])]\<rparr>"

definition daily_climatology :: "nat climatology" where
  "daily_climatology =
     \<lparr>clim_dayofyear = [1, 2, 3],
      clim_hour = None,
      clim_other_coords = [''latitude''],
      clim_vars = [(''t2m'', [[1], [5], [9]])]\<rparr>"

definition single_hour_climatology :: "nat climatology" where
  "single_hour_climatology =
     \<lparr>clim_dayofyear = [1, 2, 3],
      clim_hour = Some [0],
      clim_other_coords = [''latitude''],
      clim_vars = [(''t2m'', [[1], [5], [9]])]\<rparr>"

definition no_leap_climatology :: "nat climatology" where
  "no_leap_climatology =
     \<lparr>clim_dayofyear = map int [1 ..< 366],
      clim_hour = Some [0, 12],
      clim_other_coords = [],
      clim_vars = [(''t2m'', replicate 365 [0, 1])]\<rparr>"

definition hourly_chunks :: "(string \<times> int) list" where
  "hourly_chunks = [(''hour'', 4), (''dayofyear'', 30), (''latitude'', 8)]"

definition daily_chunks :: "(string \<times> int) list" where
  "daily_chunks = [(''dayofyear'', 2), (''latitude'', 8)]"

definition new_year_2017 :: int where
  "new_year_2017 = 17167 * Timedelta_1d"

definition new_years_eve_2016 :: int where
  "new_years_eve_2016 = 17166 * Timedelta_1d"

definition four_times :: "int list" where
  "four_times = [new_year_2017, new_year_2017 + 6 * Timedelta_1h,
                 new_year_2017 + 12 * Timedelta_1h, new_year_2017 + 18 * Timedelta_1h]"

definition offset_times :: "int list" where
  "offset_times = [new_year_2017 + 3 * Timedelta_1h, new_year_2017 + 9 * Timedelta_1h,
                   new_year_2017 + 15 * Timedelta_1h, new_year_2017 + 21 * Timedelta_1h]"

definition year_end_times :: "int list" where
  "year_end_times = [new_years_eve_2016, new_years_eve_2016 + 12 * Timedelta_1h,
                     new_year_2017, new_year_2017 + 12 * Timedelta_1h]"

definition daily_times :: "int list" where
  "daily_times = [new_year_2017, new_year_2017 + Timedelta_1d, new_year_2017 + 2 * Timedelta_1d]"

text \<open>
  What a run over the four timestamps of 2017-01-01 does with the six-hourly
  climatology: the template, and the plans and fragments for the chunk size 120 that
  the chunk extents give, for the chunk size 3, and for the chunk size \<open>-1\<close>.
\<close>

definition four_times_template :: template where
  "four_times_template =
     \<lparr>tmpl_coords = [''latitude'', ''time''], tmpl_time = four_times,
      tmpl_vars = [''t2m'', ''u10'']\<rparr>"

definition fragment :: "int \<Rightarrow> string \<Rightarrow> int list \<Rightarrow> nat list \<Rightarrow> key \<times> nat dataset" where
  "fragment start name ts vs =
     (Key [(''time'', start)] {name},
      \<lparr>ds_coords = [''latitude'', ''time''], ds_time = ts, ds_vars = [(name, vs)]\<rparr>)"

definition whole_day_plan :: "nat plan" where
  "whole_day_plan =
     \<lparr>times_index = four_times, time_chunk_size = 120, time_chunk_count = 1,
      output_chunks = [(''latitude'', - 1), (''time'', 120)],
      offsets = [0], slices = [Slice 0 120],
      output_template = four_times_template,
      written = [fragment 0 ''t2m'' four_times [1, 2, 3, 4],
                 fragment 0 ''u10'' four_times [21, 22, 23, 24]]\<rparr>"

definition chunked_day_plan :: "nat plan" where
  "chunked_day_plan =
     \<lparr>times_index = four_times, time_chunk_size = 3, time_chunk_count = 2,
      output_chunks = [(''latitude'', - 1), (''time'', 3)],
      offsets = [0, 3], slices = [Slice 0 3, Slice 3 6],
      output_template = four_times_template,
      written = [fragment 0 ''t2m'' (take 3 four_times) [1, 2, 3],
                 fragment 0 ''u10'' (take 3 four_times) [21, 22, 23],
                 fragment 3 ''t2m'' (drop 3 four_times) [4],
                 fragment 3 ''u10'' (drop 3 four_times) [24]]\<rparr>"

definition unchunked_day_plan :: "nat plan" where
  "unchunked_day_plan =
     \<lparr>times_index = four_times, time_chunk_size = - 1, time_chunk_count = - 4,
      output_chunks = [(''latitude'', - 1), (''time'', - 1)],
      offsets = [], slices = [],
      output_template = four_times_template,
      written = []\<rparr>"

section \<open>The calendar accessors on known dates\<close>

text \<open>
  2017-01-01 is day 1 of its year, 2016-12-31 day 366, 2016-02-29 (day 16860 after
  1970-01-01) day 60 and 1969-12-31 day 365; the hour is the hour of the day.
\<close>

lemma dt_dayofyear_examples:
  "dt_dayofyear new_year_2017 = 1"
  "dt_dayofyear new_years_eve_2016 = 366"
  "dt_dayofyear (16860 * Timedelta_1d + 5 * Timedelta_1h) = 60"
  "dt_dayofyear (- 1) = 365"
  by code_simp+

lemma dt_hour_examples:
  "dt_hour (new_year_2017 + 18 * Timedelta_1h) = 18"
  "dt_hour (- 1) = 23"
  by code_simp+

section \<open>Properties of \<^verbatim>\<open>main\<close>\<close>

text \<open>\<open>main\<close> ends without an exception exactly when each of its steps succeeds.\<close>

lemma main_Inr_iff:
  "main climatology input_chunks fl = Inr p \<longleftrightarrow>
     (\<exists>hour_delta time_dims time_index tmpl chunk_size chunk_count pairs.
        hour_delta_time_dims climatology = Inr (hour_delta, time_dims) \<and>
        date_range (TIME_START fl) (TIME_STOP fl) (hour_delta * Timedelta_1h) = Inr time_index \<and>
        make_template climatology time_dims time_index = Inr tmpl \<and>
        resolve_time_chunk_size (TIME_CHUNK_SIZE fl) input_chunks = Inr chunk_size \<and>
        time_chunk_count_of (length time_index) chunk_size = Inr chunk_count \<and>
        ChunksToZarr_init tmpl (output_chunks_of time_dims input_chunks chunk_size) = Inr () \<and>
        flat_map_select climatology time_index
          (map (offset_slice chunk_size) (chunk_offsets chunk_count chunk_size)) = Inr pairs \<and>
        p = \<lparr>times_index = time_index,
             time_chunk_size = chunk_size,
             time_chunk_count = chunk_count,
             output_chunks = output_chunks_of time_dims input_chunks chunk_size,
             offsets = chunk_offsets chunk_count chunk_size,
             slices = map (offset_slice chunk_size) (chunk_offsets chunk_count chunk_size),
             output_template = tmpl,
             written = pairs\<rparr>)"
  by (auto simp: main_def split: sum.splits prod.splits)

subsection \<open>The chunk size\<close>

text \<open>
  Claim C5. When \<^verbatim>\<open>time_chunk_size\<close> is not given and the chunk extents of the input
  have the key \<open>dayofyear\<close>, the chunk size is the \<open>dayofyear\<close> extent times the
  \<open>hour\<close> extent, the latter 1 when the key \<open>hour\<close> is absent; a chunk size that is
  given is used as it is; and the chunk size of every run of \<open>main\<close> is the one
  resolved this way. The worked example has the extents \<open>dayofyear = 30\<close>, \<open>hour = 4\<close>,
  which resolve to 120.
\<close>

theorem resolved_chunk_size:
  "(map_of input_chunks ''dayofyear'' = Some d \<longrightarrow>
      resolve_time_chunk_size None input_chunks =
        Inr (d * (case map_of input_chunks ''hour'' of None \<Rightarrow> 1 | Some h \<Rightarrow> h)))
   \<and> resolve_time_chunk_size (Some n) input_chunks = Inr n
   \<and> (main climatology input_chunks fl = Inr p \<longrightarrow>
        resolve_time_chunk_size (TIME_CHUNK_SIZE fl) input_chunks = Inr (time_chunk_size p))"
  by (auto simp: resolve_time_chunk_size_def main_Inr_iff)

theorem resolved_chunk_size_witness:
  "map_of [(''dayofyear'', 30), (''hour'', 4)] ''dayofyear'' = Some (30 :: int)
   \<and> resolve_time_chunk_size None [(''dayofyear'', 30), (''hour'', 4)] = Inr 120
   \<and> resolve_time_chunk_size (Some 7) [(''dayofyear'', 30), (''hour'', 4)] = Inr 7
   \<and> resolve_time_chunk_size None daily_chunks = Inr 2
   \<and> main hourly_climatology hourly_chunks
         \<lparr>TIME_START = new_year_2017, TIME_STOP = new_year_2017 + 18 * Timedelta_1h,
          TIME_CHUNK_SIZE = None\<rparr> = Inr whole_day_plan
   \<and> time_chunk_size whole_day_plan = 120"
proof -
  let ?fl = "\<lparr>TIME_START = new_year_2017, TIME_STOP = new_year_2017 + 18 * Timedelta_1h,
              TIME_CHUNK_SIZE = None\<rparr>"
  have run: "main hourly_climatology hourly_chunks ?fl = Inr whole_day_plan"
    by code_simp
  have key: "map_of [(''dayofyear'', 30), (''hour'', 4)] ''dayofyear'' = Some (30 :: int)"
    by simp
  have daily: "resolve_time_chunk_size None daily_chunks = Inr 2"
    by (simp add: resolve_time_chunk_size_def daily_chunks_def)
  have size: "time_chunk_size whole_day_plan = 120"
    by (simp add: whole_day_plan_def)
  from resolved_chunk_size [of "[(''dayofyear'', 30), (''hour'', 4)]" 30 7
      hourly_climatology ?fl whole_day_plan] key run daily size
  show ?thesis by simp
qed

subsection \<open>The period step\<close>

text \<open>
  Claim C10. With an hour coordinate the period step is \<open>hour[1] - hour[0]\<close>, read
  without a guard: a coordinate of two or more entries gives their difference, and
  on a coordinate of exactly one entry the read fails with \<open>IndexError\<close>, so that
  \<open>main\<close> fails with it before anything else is computed, whatever the chunk
  extents and flags.
\<close>

theorem hour_step_reads_two_entries:
  "(clim_hour climatology = Some (h0 # h1 # hs) \<longrightarrow>
      hour_delta_time_dims climatology = Inr (h1 - h0, [''hour'', ''dayofyear'']))
   \<and> (clim_hour climatology = Some [h] \<longrightarrow>
        hour_delta_time_dims climatology = Inl IndexError
        \<and> main climatology input_chunks fl = Inl IndexError)"
  by (simp add: hour_delta_time_dims_def getitem_def main_def)

theorem hour_step_reads_two_entries_witness:
  "clim_hour single_hour_climatology = Some [0]
   \<and> main single_hour_climatology hourly_chunks
       \<lparr>TIME_START = new_year_2017, TIME_STOP = new_year_2017 + Timedelta_1d,
        TIME_CHUNK_SIZE = Some 4\<rparr> = Inl IndexError
   \<and> clim_hour hourly_climatology = Some (0 # 6 # [12, 18])
   \<and> hour_delta_time_dims hourly_climatology = Inr (6, [''hour'', ''dayofyear''])"
proof -
  have one: "clim_hour single_hour_climatology = Some [0]"
    by (simp add: single_hour_climatology_def)
  have four: "clim_hour hourly_climatology = Some (0 # 6 # [12, 18])"
    by (simp add: hourly_climatology_def)
  from hour_step_reads_two_entries [of single_hour_climatology 0 0 "[]" 0 hourly_chunks
      "\<lparr>TIME_START = new_year_2017, TIME_STOP = new_year_2017 + Timedelta_1d,
        TIME_CHUNK_SIZE = Some 4\<rparr>"]
    hour_step_reads_two_entries [of hourly_climatology 0 6 "[12, 18]" 0 hourly_chunks
      "\<lparr>TIME_START = new_year_2017, TIME_STOP = new_year_2017 + Timedelta_1d,
        TIME_CHUNK_SIZE = Some 4\<rparr>"] one four
  show ?thesis by simp
qed

subsection \<open>The chunk layout of the output\<close>

lemma map_of_unchunked:
  "map_of (map (\<lambda>dim. (dim, - 1 :: int)) ds) d = (if d \<in> set ds then Some (- 1) else None)"
  by (induction ds) auto

lemma map_of_output_chunks_of:
  "map_of (output_chunks_of time_dims input_chunks cs) d =
     (if d = ''time'' then Some cs
      else if d \<in> fst ` set input_chunks \<and> d \<notin> set time_dims then Some (- 1)
      else None)"
proof -
  have "d \<in> fst ` set input_chunks \<and> d \<notin> set time_dims \<longleftrightarrow>
        d \<in> set (filter (\<lambda>dim. dim \<notin> set time_dims) (map fst input_chunks))"
    by auto
  then show ?thesis
    unfolding output_chunks_of_def update_conv' map_of_unchunked by simp
qed

lemma keys_output_chunks_of:
  "fst ` set (output_chunks_of time_dims input_chunks cs) =
     insert ''time'' {d \<in> fst ` set input_chunks. d \<notin> set time_dims}"
proof -
  have "fst ` set (output_chunks_of time_dims input_chunks cs) =
          {''time''} \<union> set (filter (\<lambda>dim. dim \<notin> set time_dims) (map fst input_chunks))"
    unfolding output_chunks_of_def dom_update by (simp add: image_image)
  also have "set (filter (\<lambda>dim. dim \<notin> set time_dims) (map fst input_chunks)) =
          {d \<in> fst ` set input_chunks. d \<notin> set time_dims}"
    unfolding set_filter set_map ..
  finally show ?thesis by simp
qed

lemma time_dims_cases:
  "hour_delta_time_dims climatology = Inr (hour_delta, time_dims) \<Longrightarrow>
     time_dims = (if clim_hour climatology = None then [''dayofyear''] else [''hour'', ''dayofyear''])"
  by (auto simp: hour_delta_time_dims_def split: option.splits sum.splits)

text \<open>
  Claim C8. In the chunk layout handed to the writer the output time dimension
  \<open>time\<close> has the resolved chunk size, and every dimension of the input's chunking
  other than the periodic ones (\<open>dayofyear\<close>, and \<open>hour\<close> when the climatology has
  that coordinate) has the extent \<open>-1\<close>, one chunk over the whole dimension. The
  periodic dimensions are not in the layout, and the layout has no dimension beyond
  \<open>time\<close> and those of the input. (The layout has one entry per name, so the entry
  of \<open>time\<close> is the chunk size also for an input that is itself chunked along a
  dimension of that name.)
\<close>

theorem output_chunk_layout:
  assumes "main climatology input_chunks fl = Inr p"
  shows "map_of (output_chunks p) ''time'' = Some (time_chunk_size p)
    \<and> (\<forall>dim \<in> fst ` set input_chunks.
          dim \<noteq> ''time'' \<and> dim \<noteq> ''dayofyear'' \<and> (dim \<noteq> ''hour'' \<or> clim_hour climatology = None) \<longrightarrow>
            map_of (output_chunks p) dim = Some (- 1))
    \<and> map_of (output_chunks p) ''dayofyear'' = None
    \<and> (clim_hour climatology \<noteq> None \<longrightarrow> map_of (output_chunks p) ''hour'' = None)
    \<and> fst ` set (output_chunks p) \<subseteq> insert ''time'' (fst ` set input_chunks)"
proof -
  from assms obtain hour_delta time_dims where
    hd: "hour_delta_time_dims climatology = Inr (hour_delta, time_dims)" and
    oc: "output_chunks p = output_chunks_of time_dims input_chunks (time_chunk_size p)"
    by (auto simp: main_Inr_iff)
  from time_dims_cases [OF hd] show ?thesis
    by (auto simp: oc map_of_output_chunks_of keys_output_chunks_of)
qed

theorem output_chunk_layout_witness:
  "main hourly_climatology hourly_chunks
      \<lparr>TIME_START = new_year_2017, TIME_STOP = new_year_2017 + 18 * Timedelta_1h,
       TIME_CHUNK_SIZE = None\<rparr> = Inr whole_day_plan
   \<and> output_chunks whole_day_plan = [(''latitude'', - 1), (''time'', 120)]
   \<and> ''latitude'' \<in> fst ` set hourly_chunks
   \<and> map_of [(''latitude'', - 1), (''time'', 120 :: int)] ''latitude'' = Some (- 1)
   \<and> map_of [(''latitude'', - 1), (''time'', 120 :: int)] ''time'' = Some 120
   \<and> map_of [(''latitude'', - 1), (''time'', 120 :: int)] ''hour'' = None"
proof -
  let ?fl = "\<lparr>TIME_START = new_year_2017, TIME_STOP = new_year_2017 + 18 * Timedelta_1h,
       TIME_CHUNK_SIZE = None\<rparr>"
  have run: "main hourly_climatology hourly_chunks ?fl = Inr whole_day_plan"
    by code_simp
  have dim: "''latitude'' \<in> fst ` set hourly_chunks"
    by (simp add: hourly_chunks_def)
  have hour: "clim_hour hourly_climatology \<noteq> None"
    by (simp add: hourly_climatology_def)
  have fields: "output_chunks whole_day_plan = [(''latitude'', - 1), (''time'', 120)]"
    "time_chunk_size whole_day_plan = 120"
    by (simp_all add: whole_day_plan_def)
  note layout = output_chunk_layout [OF run]
  from layout dim have "map_of (output_chunks whole_day_plan) ''latitude'' = Some (- 1)"
    by auto
  moreover from layout
  have "map_of (output_chunks whole_day_plan) ''time'' = Some (time_chunk_size whole_day_plan)"
    by blast
  moreover from layout hour have "map_of (output_chunks whole_day_plan) ''hour'' = None"
    by blast
  ultimately show ?thesis
    using run dim fields by simp
qed

subsection \<open>Floor and ceiling of a quotient\<close>

lemma floor_steps_bounds:
  fixes a b :: int
  assumes "0 < b"
  shows "a div b * b \<le> a" and "a < a div b * b + b"
proof -
  have "a = a div b * b + a mod b" by simp
  moreover have "0 \<le> a mod b" "a mod b < b" using assms by simp_all
  ultimately show "a div b * b \<le> a" and "a < a div b * b + b" by linarith+
qed

lemma ceil_div_bounds:
  assumes "0 < c"
  shows "n \<le> ceil_div n c * c" and "ceil_div n c * c < n + c"
  using floor_steps_bounds [OF assms, of "- n"] by (simp_all add: ceil_div_def)

lemma ceil_div_unique:
  assumes "0 < d" and "(C - 1) * d < x" and "x \<le> C * d"
  shows "ceil_div x d = C"
proof -
  from ceil_div_bounds [OF assms(1), of x]
  have 1: "x \<le> ceil_div x d * d" and 2: "ceil_div x d * d < x + d" by simp_all
  have "(C - 1) * d < ceil_div x d * d" using assms(2) 1 by linarith
  then have a: "C - 1 < ceil_div x d" using assms(1) by (simp add: mult_less_cancel_right)
  have "ceil_div x d * d < (C + 1) * d" using assms(3) 2 by (simp add: algebra_simps)
  then have b: "ceil_div x d < C + 1" using assms(1) by (simp add: mult_less_cancel_right)
  from a b show ?thesis by simp
qed

lemma ceil_div_nonneg:
  assumes "0 < c" and "0 \<le> n"
  shows "0 \<le> ceil_div n c"
proof (rule ccontr)
  assume "\<not> 0 \<le> ceil_div n c"
  then have "ceil_div n c \<le> - 1" by simp
  then have "ceil_div n c * c \<le> - 1 * c"
    using assms(1) by (intro mult_right_mono) simp_all
  with ceil_div_bounds(1) [OF assms(1), of n] assms show False by simp
qed

subsection \<open>The time index\<close>

lemma Timedelta_1h_pos: "0 < Timedelta_1h"
  by (simp add: Timedelta_1h_def)

lemma date_range_nonzero:
  "freq \<noteq> 0 \<Longrightarrow>
     date_range t0 t1 freq = Inr (map (\<lambda>k. t0 + int k * freq) [0 ..< nat ((t1 - t0) div freq + 1)])"
  by (simp add: date_range_def)

lemma sorted_wrt_arith_progression:
  fixes t0 step :: int
  assumes "0 < step"
  shows "sorted_wrt (<) (map (\<lambda>k. t0 + int k * step) [0 ..< n])"
  using assms by (simp add: sorted_wrt_iff_nth_less)

text \<open>
  Claim C3, as the specification states it, gives the time index
  \<open>ceil((time_stop - time_start) / period_step) + 1\<close> entries. The index stops at the
  last step that does not pass \<open>time_stop\<close>: from 2017-01-01T00 to 2017-01-02T01 in
  steps of 24 hours it has the two entries 2017-01-01T00 and 2017-01-02T00, while
  the formula gives 3.
\<close>

theorem time_index_length_counterexample:
  "date_range new_year_2017 (new_year_2017 + 25 * Timedelta_1h) (24 * Timedelta_1h)
     = Inr [new_year_2017, new_year_2017 + 24 * Timedelta_1h]
   \<and> ceil_div ((new_year_2017 + 25 * Timedelta_1h) - new_year_2017) (24 * Timedelta_1h) + 1 = 3"
  by code_simp

text \<open>
  Claim C3, amended. For \<open>time_start \<le> time_stop\<close> and a positive period step the
  time index has \<open>floor((time_stop - time_start) / period_step) + 1\<close> entries, is
  strictly increasing and evenly spaced by the period step; it starts at
  \<open>time_start\<close> and its last entry is the last step not after \<open>time_stop\<close>. It is the
  time index of every run of \<open>main\<close> with these flags and this step.
\<close>

theorem time_index_shape:
  assumes "t0 \<le> t1" and "0 < hour_delta"
  shows "\<exists>ts. date_range t0 t1 (hour_delta * Timedelta_1h) = Inr ts
      \<and> int (length ts) = (t1 - t0) div (hour_delta * Timedelta_1h) + 1
      \<and> sorted_wrt (<) ts
      \<and> (\<forall>i. Suc i < length ts \<longrightarrow> ts ! Suc i - ts ! i = hour_delta * Timedelta_1h)
      \<and> hd ts = t0 \<and> last ts \<le> t1 \<and> t1 < last ts + hour_delta * Timedelta_1h
      \<and> (main climatology input_chunks fl = Inr p
           \<and> hour_delta_time_dims climatology = Inr (hour_delta, time_dims)
           \<and> TIME_START fl = t0 \<and> TIME_STOP fl = t1 \<longrightarrow> times_index p = ts)"
proof -
  define step where "step = hour_delta * Timedelta_1h"
  define q where "q = (t1 - t0) div step"
  define ts where "ts = map (\<lambda>k. t0 + int k * step) [0 ..< nat (q + 1)]"
  have step_pos: "0 < step"
    using assms(2) Timedelta_1h_pos by (simp add: step_def)
  have q_nonneg: "0 \<le> q"
    using assms(1) step_pos by (simp add: q_def pos_imp_zdiv_nonneg_iff)
  have run: "date_range t0 t1 step = Inr ts"
    using step_pos by (simp add: date_range_nonzero ts_def q_def)
  have len: "length ts = nat (q + 1)"
    by (simp add: ts_def)
  have len_int: "int (length ts) = q + 1"
    using q_nonneg by (simp add: len)
  have nth: "ts ! i = t0 + int i * step" if "i < length ts" for i
    using that by (simp add: ts_def)
  have sorted: "sorted_wrt (<) ts"
    unfolding ts_def by (rule sorted_wrt_arith_progression [OF step_pos])
  have spaced: "ts ! Suc i - ts ! i = step" if "Suc i < length ts" for i
    using that nth [of i] nth [of "Suc i"] by (simp add: algebra_simps)
  have nonempty: "ts \<noteq> []"
    using len_int q_nonneg by auto
  have first: "hd ts = t0"
    using nonempty nth [of 0] by (simp add: hd_conv_nth)
  have "last ts = ts ! (length ts - 1)"
    using nonempty by (rule last_conv_nth)
  also have "\<dots> = t0 + int (length ts - 1) * step"
    using nonempty by (intro nth) simp
  also have "int (length ts - 1) = q"
    using len_int nonempty by (simp add: of_nat_diff Suc_leI)
  finally have last_eq: "last ts = t0 + q * step" .
  have bounds: "q * step \<le> t1 - t0" "t1 - t0 < q * step + step"
    using floor_steps_bounds [OF step_pos, of "t1 - t0"] by (simp_all add: q_def)
  have not_past: "last ts \<le> t1" and tight: "t1 < last ts + step"
    using bounds last_eq by linarith+
  have link: "times_index p = ts"
    if "main climatology input_chunks fl = Inr p"
      and "hour_delta_time_dims climatology = Inr (hour_delta, time_dims)"
      and "TIME_START fl = t0" and "TIME_STOP fl = t1"
    using that run by (auto simp: main_Inr_iff step_def)
  show ?thesis
    using run len_int sorted spaced first not_past tight link
    unfolding step_def q_def by blast
qed

theorem time_index_shape_witness:
  "new_year_2017 \<le> new_year_2017 + 18 * Timedelta_1h \<and> (0 :: int) < 6
   \<and> hour_delta_time_dims hourly_climatology = Inr (6, [''hour'', ''dayofyear''])
   \<and> main hourly_climatology hourly_chunks
         \<lparr>TIME_START = new_year_2017, TIME_STOP = new_year_2017 + 18 * Timedelta_1h,
          TIME_CHUNK_SIZE = None\<rparr> = Inr whole_day_plan
   \<and> times_index whole_day_plan = four_times
   \<and> date_range new_year_2017 (new_year_2017 + 18 * Timedelta_1h) (6 * Timedelta_1h)
       = Inr four_times
   \<and> int (length four_times) =
       (new_year_2017 + 18 * Timedelta_1h - new_year_2017) div (6 * Timedelta_1h) + 1
   \<and> length four_times = 4
   \<and> sorted_wrt (<) four_times
   \<and> last four_times \<le> new_year_2017 + 18 * Timedelta_1h"
proof -
  let ?fl = "\<lparr>TIME_START = new_year_2017, TIME_STOP = new_year_2017 + 18 * Timedelta_1h,
          TIME_CHUNK_SIZE = None\<rparr>"
  have le: "new_year_2017 \<le> new_year_2017 + 18 * Timedelta_1h"
    by (simp add: Timedelta_1h_def)
  have pos: "(0 :: int) < 6" by simp
  have step: "hour_delta_time_dims hourly_climatology = Inr (6, [''hour'', ''dayofyear''])"
    by (simp add: hour_delta_time_dims_def hourly_climatology_def getitem_def)
  have run: "main hourly_climatology hourly_chunks ?fl = Inr whole_day_plan"
    by code_simp
  have idx: "times_index whole_day_plan = four_times"
    by (simp add: whole_day_plan_def)
  from time_index_shape [OF le pos, of hourly_climatology hourly_chunks ?fl whole_day_plan
      "[''hour'', ''dayofyear'']"]
  obtain ts where
    range: "date_range new_year_2017 (new_year_2017 + 18 * Timedelta_1h) (6 * Timedelta_1h) = Inr ts"
    and len: "int (length ts) =
       (new_year_2017 + 18 * Timedelta_1h - new_year_2017) div (6 * Timedelta_1h) + 1"
    and sorted: "sorted_wrt (<) ts"
    and last: "last ts \<le> new_year_2017 + 18 * Timedelta_1h"
    and link: "main hourly_climatology hourly_chunks ?fl = Inr whole_day_plan
           \<and> hour_delta_time_dims hourly_climatology = Inr (6, [''hour'', ''dayofyear''])
           \<and> TIME_START ?fl = new_year_2017
           \<and> TIME_STOP ?fl = new_year_2017 + 18 * Timedelta_1h \<longrightarrow> times_index whole_day_plan = ts"
    by blast
  from link run step idx have ts: "ts = four_times" by simp
  have four: "length four_times = 4" by (simp add: four_times_def)
  from le pos step run idx range len sorted last four show ?thesis
    unfolding ts by simp
qed

subsection \<open>The double of line 105\<close>

text \<open>
  Rounding to the nearest multiple keeps the order with respect to every multiple:
  a quotient that is at most \<open>M\<close> rounds to at most \<open>M\<close>, and one that is more than
  \<open>M + 1/2\<close> rounds to at least \<open>M + 1\<close>.
\<close>

lemma round_half_even_upper:
  assumes "0 < den" and "num \<le> M * den"
  shows "round_half_even num den \<le> M"
proof -
  define q where "q = num div den"
  define r where "r = num mod den"
  have num: "num = q * den + r" and r: "0 \<le> r" "r < den"
    using assms(1) by (simp_all add: q_def r_def)
  have "q * den \<le> M * den" using num r assms(2) by linarith
  then have qM: "q \<le> M" using assms(1) by (simp add: mult_le_cancel_right)
  have "q + 1 \<le> M" if "den \<le> 2 * r"
  proof -
    from that assms(1) have "0 < r" by linarith
    then have "q * den < M * den" using num assms(2) by linarith
    then have "q < M" using assms(1) by (simp add: mult_less_cancel_right)
    then show ?thesis by simp
  qed
  with qM show ?thesis
    unfolding round_half_even_def q_def [symmetric] r_def [symmetric] Let_def by auto
qed

lemma round_half_even_lower:
  assumes "0 < den" and "(2 * M + 1) * den < 2 * num"
  shows "M + 1 \<le> round_half_even num den"
proof -
  define q where "q = num div den"
  define r where "r = num mod den"
  have num: "num = q * den + r" and r: "0 \<le> r" "r < den"
    using assms(1) by (simp_all add: q_def r_def)
  have "2 * M * den + den < 2 * q * den + 2 * r"
    using assms(2) num by (simp add: algebra_simps)
  then have "2 * M * den < 2 * q * den + 2 * den" using r assms(1) by linarith
  then have "(2 * M) * den < (2 * q + 2) * den" by (simp add: algebra_simps)
  then have "2 * M < 2 * q + 2" using assms(1) by (simp add: mult_less_cancel_right)
  then have Mq: "M \<le> q" by simp
  show ?thesis
  proof (cases "M < q")
    case True
    then have "M + 1 \<le> q" by simp
    then show ?thesis
      unfolding round_half_even_def q_def [symmetric] r_def [symmetric] Let_def by auto
  next
    case False
    with Mq have "q = M" by simp
    with \<open>2 * M * den + den < 2 * q * den + 2 * r\<close> have "den < 2 * r" by simp
    then show ?thesis
      unfolding round_half_even_def q_def [symmetric] r_def [symmetric] Let_def
      using \<open>q = M\<close> by auto
  qed
qed

lemma round_half_even_nonneg:
  assumes "0 < den" and "0 \<le> num"
  shows "0 \<le> round_half_even num den"
proof -
  have "0 \<le> num div den" using assms by (simp add: pos_imp_zdiv_nonneg_iff)
  then show ?thesis
    unfolding round_half_even_def Let_def by auto
qed

text \<open>\<open>floor_log2_ratio a b\<close> is the exponent of the quotient.\<close>

lemma bitlen_pos_bounds:
  assumes "0 < x"
  obtains l where "bitlen x = int l + 1" and "2 ^ l \<le> x" and "x < 2 ^ (l + 1)"
proof -
  from assms have "1 \<le> bitlen x" by (auto simp: bitlen_alt_def)
  define l where "l = nat (bitlen x - 1)"
  have b: "bitlen x = int l + 1" using \<open>1 \<le> bitlen x\<close> by (simp add: l_def)
  from bitlen_bounds [OF assms] have "2 ^ l \<le> x" and "x < 2 ^ nat (bitlen x)"
    by (simp_all add: l_def)
  moreover have "nat (bitlen x) = l + 1" using b by simp
  ultimately show thesis using that b by simp
qed

lemma floor_log2_ratio_lower:
  assumes "0 < a" and "0 < b"
  shows "b * 2 ^ nat (floor_log2_ratio a b) \<le> a * 2 ^ nat (- floor_log2_ratio a b)"
proof -
  from assms(1) obtain la where la: "bitlen a = int la + 1" "2 ^ la \<le> a" "a < 2 ^ (la + 1)"
    by (rule bitlen_pos_bounds)
  from assms(2) obtain lb where lb: "bitlen b = int lb + 1" "2 ^ lb \<le> b" "b < 2 ^ (lb + 1)"
    by (rule bitlen_pos_bounds)
  define d where "d = bitlen a - bitlen b"
  have d: "d = int la - int lb" by (simp add: d_def la lb)
  show ?thesis
  proof (cases "b * 2 ^ nat d \<le> a * 2 ^ nat (- d)")
    case True
    then show ?thesis by (simp add: floor_log2_ratio_def d_def Let_def)
  next
    case False
    then have e: "floor_log2_ratio a b = d - 1"
      by (simp add: floor_log2_ratio_def d_def Let_def)
    show ?thesis
    proof (cases "lb < la")
      case True
      then have n1: "nat (d - 1) = la - lb - 1" and n2: "nat (1 - d) = 0"
        by (simp_all add: d)
      have "b * 2 ^ (la - lb - 1) \<le> 2 ^ (lb + 1) * 2 ^ (la - lb - 1)"
        using lb(3) by (intro mult_right_mono) simp_all
      also have "\<dots> = (2::int) ^ ((lb + 1) + (la - lb - 1))" by (rule power_add [symmetric])
      also have "(lb + 1) + (la - lb - 1) = la" using True by simp
      finally show ?thesis using la(2) by (simp add: e n1 n2)
    next
      case False
      then have n1: "nat (d - 1) = 0" and n2: "nat (1 - d) = lb - la + 1"
        by (simp_all add: d)
      have "b \<le> 2 ^ (lb + 1)" using lb(3) by simp
      also have "lb + 1 = la + (lb - la + 1)" using False by simp
      also have "(2::int) ^ (la + (lb - la + 1)) = 2 ^ la * 2 ^ (lb - la + 1)"
        by (rule power_add)
      also have "\<dots> \<le> a * 2 ^ (lb - la + 1)"
        using la(2) by (intro mult_right_mono) simp_all
      finally show ?thesis by (simp add: e n1 n2)
    qed
  qed
qed

lemma floor_log2_ratio_upper:
  assumes "0 < a" and "0 < b"
  shows "a * 2 ^ nat (- (floor_log2_ratio a b + 1)) < b * 2 ^ nat (floor_log2_ratio a b + 1)"
proof -
  from assms(1) obtain la where la: "bitlen a = int la + 1" "2 ^ la \<le> a" "a < 2 ^ (la + 1)"
    by (rule bitlen_pos_bounds)
  from assms(2) obtain lb where lb: "bitlen b = int lb + 1" "2 ^ lb \<le> b" "b < 2 ^ (lb + 1)"
    by (rule bitlen_pos_bounds)
  define d where "d = bitlen a - bitlen b"
  have d: "d = int la - int lb" by (simp add: d_def la lb)
  show ?thesis
  proof (cases "b * 2 ^ nat d \<le> a * 2 ^ nat (- d)")
    case False
    then have e: "floor_log2_ratio a b = d - 1"
      by (simp add: floor_log2_ratio_def d_def Let_def)
    from False show ?thesis by (simp add: e)
  next
    case True
    then have e: "floor_log2_ratio a b = d"
      by (simp add: floor_log2_ratio_def d_def Let_def)
    show ?thesis
    proof (cases "lb \<le> la")
      case True
      then have n1: "nat (d + 1) = la - lb + 1" and n2: "nat (- d - 1) = 0"
        by (simp_all add: d)
      have "a < 2 ^ (la + 1)" by (rule la(3))
      also have "la + 1 = lb + (la - lb + 1)" using True by simp
      also have "(2::int) ^ (lb + (la - lb + 1)) = 2 ^ lb * 2 ^ (la - lb + 1)"
        by (rule power_add)
      also have "\<dots> \<le> b * 2 ^ (la - lb + 1)"
        using lb(2) by (intro mult_right_mono) simp_all
      finally show ?thesis by (simp add: e n1 n2)
    next
      case False
      then have n1: "nat (d + 1) = 0" and n2: "nat (- d - 1) = lb - la - 1"
        by (simp_all add: d)
      have "a * 2 ^ (lb - la - 1) < 2 ^ (la + 1) * 2 ^ (lb - la - 1)"
        using la(3) by (intro mult_strict_right_mono) simp_all
      also have "\<dots> = (2::int) ^ ((la + 1) + (lb - la - 1))" by (rule power_add [symmetric])
      also have "(la + 1) + (lb - la - 1) = lb" using False by simp
      finally show ?thesis using lb(2) by (simp add: e n1 n2)
    qed
  qed
qed

lemma floor_log2_ratio_le_52:
  assumes "0 < a" and "a < 2 ^ 53" and "0 < b"
  shows "floor_log2_ratio a b \<le> 52"
proof (rule ccontr)
  assume "\<not> floor_log2_ratio a b \<le> 52"
  then have big: "53 \<le> nat (floor_log2_ratio a b)" and zero: "nat (- floor_log2_ratio a b) = 0"
    by simp_all
  have "(2::int) ^ 53 \<le> 2 ^ nat (floor_log2_ratio a b)"
    using big by (intro power_increasing) simp_all
  also have "\<dots> \<le> b * 2 ^ nat (floor_log2_ratio a b)"
    using assms(3) by (simp add: mult_le_cancel_right1)
  also have "\<dots> \<le> a"
    using floor_log2_ratio_lower [OF assms(1) assms(3)] by (simp add: zero)
  finally show False using assms(2) by simp
qed

lemma floor_log2_ratio_ge_minus_53:
  assumes "0 < a" and "0 < b" and "b < 2 ^ 53"
  shows "- 53 \<le> floor_log2_ratio a b"
proof (rule ccontr)
  assume "\<not> - 53 \<le> floor_log2_ratio a b"
  then have big: "53 \<le> nat (- (floor_log2_ratio a b + 1))"
    and zero: "nat (floor_log2_ratio a b + 1) = 0"
    by simp_all
  have "(2::int) ^ 53 \<le> 2 ^ nat (- (floor_log2_ratio a b + 1))"
    using big by (intro power_increasing) simp_all
  also have "\<dots> \<le> a * 2 ^ nat (- (floor_log2_ratio a b + 1))"
    using assms(1) by (simp add: mult_le_cancel_right1)
  also have "\<dots> < b"
    using floor_log2_ratio_upper [OF assms(1) assms(2)] by (simp add: zero)
  finally show False using assms(3) by simp
qed

lemma double_of_small_ratio:
  assumes "0 < a" and "a < 2 ^ 53" and "0 < b"
  obtains j where "double_of_ratio a b = (round_half_even (a * 2 ^ j) b, - int j)"
    and "0 \<le> round_half_even (a * 2 ^ j) b"
    and "round_half_even (a * 2 ^ j) b < 2 ^ 1024 * 2 ^ j"
    and "- int j = max (floor_log2_ratio a b - 52) (- 1074)"
proof -
  define k where "k = max (floor_log2_ratio a b - 52) (- 1074)"
  define j where "j = nat (- k)"
  have "k \<le> 0"
    using floor_log2_ratio_le_52 [OF assms] by (simp add: k_def)
  then have k: "k = - int j" and nk: "nat k = 0" by (simp_all add: j_def)
  have d: "double_of_ratio a b = (round_half_even (a * 2 ^ j) b, - int j)"
    unfolding double_of_ratio_def k_def [symmetric] Let_def
    by (simp add: nk j_def [symmetric] k)
  have nonneg: "0 \<le> round_half_even (a * 2 ^ j) b"
    using assms by (intro round_half_even_nonneg) simp_all
  have "(a * 2 ^ j) * 1 \<le> (a * 2 ^ j) * b"
    using assms by (intro mult_left_mono) simp_all
  then have "a * 2 ^ j \<le> (a * 2 ^ j) * b" by simp
  then have "round_half_even (a * 2 ^ j) b \<le> a * 2 ^ j"
    by (rule round_half_even_upper [OF assms(3)])
  also have "\<dots> < 2 ^ 53 * 2 ^ j"
    using assms(2) by (intro mult_strict_right_mono) simp_all
  also have "\<dots> \<le> 2 ^ 1024 * 2 ^ j"
    by (intro mult_right_mono power_increasing) simp_all
  finally have small: "round_half_even (a * 2 ^ j) b < 2 ^ 1024 * 2 ^ j" .
  show thesis
    using that [OF d nonneg small] k by (simp add: k_def)
qed

text \<open>
  For a dividend and a divisor below \<open>2 ^ 53\<close> the double is close enough to the
  quotient for \<^verbatim>\<open>math.ceil\<close> to give the exact ceiling. With a negative divisor the
  result is never positive.
\<close>

lemma true_div_ceil_exact:
  assumes "0 \<le> a" and "a < 2 ^ 53" and "0 < b" and "b < 2 ^ 53"
  shows "true_div_ceil a b = Inr (ceil_div a b)"
proof (cases "a = 0")
  case True
  with assms(3) show ?thesis by (simp add: true_div_ceil_def ceil_div_def)
next
  case False
  with assms(1) have a: "0 < a" by simp
  define e where "e = floor_log2_ratio a b"
  define C where "C = ceil_div a b"
  from double_of_small_ratio [OF a assms(2) assms(3)] obtain j where
    d: "double_of_ratio a b = (round_half_even (a * 2 ^ j) b, - int j)"
    and small: "round_half_even (a * 2 ^ j) b < 2 ^ 1024 * 2 ^ j"
    and j: "- int j = max (e - 52) (- 1074)"
    unfolding e_def by blast
  have e_hi: "e \<le> 52" unfolding e_def by (rule floor_log2_ratio_le_52 [OF a assms(2) assms(3)])
  have e_lo: "- 53 \<le> e" unfolding e_def by (rule floor_log2_ratio_ge_minus_53 [OF a assms(3) assms(4)])
  from j e_lo have je: "int j = 52 - e" by simp
  have b_small: "b < 2 ^ (j + 1)"
  proof (cases "0 \<le> e")
    case True
    then have n: "nat (- e) = 0" and jj: "j + 1 + nat e = 53" using je by simp_all
    have "b * 2 ^ nat e \<le> a"
      using floor_log2_ratio_lower [OF a assms(3)] by (simp add: e_def [symmetric] n)
    also have "a < 2 ^ 53" by (rule assms(2))
    also have "(2::int) ^ 53 = 2 ^ (j + 1 + nat e)" by (simp only: jj)
    also have "\<dots> = 2 ^ (j + 1) * 2 ^ nat e" by (rule power_add)
    finally show ?thesis by (simp add: mult_less_cancel_right)
  next
    case False
    then have n: "nat e = 0" and jj: "53 + nat (- e) = j + 1" using je by simp_all
    have "b \<le> a * 2 ^ nat (- e)"
      using floor_log2_ratio_lower [OF a assms(3)] by (simp add: e_def [symmetric] n)
    also have "\<dots> < 2 ^ 53 * 2 ^ nat (- e)"
      using assms(2) by (intro mult_strict_right_mono) simp_all
    also have "\<dots> = (2::int) ^ (53 + nat (- e))" by (rule power_add [symmetric])
    finally show ?thesis by (simp only: jj)
  qed
  from ceil_div_bounds [OF assms(3), of a]
  have c1: "a \<le> C * b" and c2: "C * b < a + b" by (simp_all add: C_def)
  define m where "m = round_half_even (a * 2 ^ j) b"
  have "a * 2 ^ j \<le> (C * b) * 2 ^ j"
    using c1 by (intro mult_right_mono) simp_all
  then have "a * 2 ^ j \<le> (C * 2 ^ j) * b" by (simp add: algebra_simps)
  then have upper: "m \<le> C * 2 ^ j"
    unfolding m_def by (rule round_half_even_upper [OF assms(3)])
  have "(C - 1) * b + 1 \<le> a" using c2 by (simp add: algebra_simps)
  then have "((C - 1) * b + 1) * 2 ^ j \<le> a * 2 ^ j"
    by (intro mult_right_mono) simp_all
  then have "2 * ((C - 1) * 2 ^ j) * b + 2 ^ (j + 1) \<le> 2 * (a * 2 ^ j)"
    by (simp add: algebra_simps)
  with b_small have "(2 * ((C - 1) * 2 ^ j) + 1) * b < 2 * (a * 2 ^ j)"
    by (simp add: algebra_simps)
  then have "(C - 1) * 2 ^ j + 1 \<le> m"
    unfolding m_def by (rule round_half_even_lower [OF assms(3)])
  then have lower: "(C - 1) * 2 ^ j < m" by simp
  have "ceil_div m (2 ^ j) = C"
    by (rule ceil_div_unique [OF _ lower upper]) simp
  with d small a assms(3) show ?thesis
    by (simp add: true_div_ceil_def m_def C_def)
qed

lemma true_div_ceil_negative_divisor:
  assumes "0 \<le> a" and "a < 2 ^ 53" and "b < 0"
  shows "\<exists>c. true_div_ceil a b = Inr c \<and> c \<le> 0"
proof (cases "a = 0")
  case True
  with assms(3) show ?thesis by (simp add: true_div_ceil_def)
next
  case False
  with assms(1) have a: "0 < a" by simp
  from assms(3) have b: "0 < - b" by simp
  from double_of_small_ratio [OF a assms(2) b] obtain j where
    d: "double_of_ratio a (- b) = (round_half_even (a * 2 ^ j) (- b), - int j)"
    and nonneg: "0 \<le> round_half_even (a * 2 ^ j) (- b)"
    and small: "round_half_even (a * 2 ^ j) (- b) < 2 ^ 1024 * 2 ^ j"
    by blast
  define m where "m = round_half_even (a * 2 ^ j) (- b)"
  have "0 \<le> m div 2 ^ j"
    using nonneg by (simp add: m_def pos_imp_zdiv_nonneg_iff)
  then have "ceil_div (- m) (2 ^ j) \<le> 0" by (simp add: ceil_div_def)
  with d small a assms(3) show ?thesis
    by (simp add: true_div_ceil_def m_def abs_if)
qed

lemma time_chunk_count_exact:
  assumes "0 < cs" and "cs < 2 ^ 53" and "int n < 2 ^ 53"
  shows "time_chunk_count_of n cs = Inr (ceil_div (int n) cs)"
  using assms by (simp add: time_chunk_count_of_def true_div_ceil_exact)

subsection \<open>The chunk descriptors\<close>

lemma clip_bound_nonneg: "0 \<le> i \<Longrightarrow> clip_bound n i = min (nat i) n"
  by (auto simp: clip_bound_def)

lemma slice_indices_offset:
  assumes "0 < cs"
  shows "slice_indices (offset_slice cs (int i * cs)) n =
           (min (i * nat cs) n, min (i * nat cs + nat cs) n)"
proof -
  have a: "nat (int i * cs) = i * nat cs"
    by (simp add: nat_mult_distrib)
  have b: "nat (int i * cs + cs) = i * nat cs + nat cs"
    using assms by (simp add: nat_add_distrib a)
  show ?thesis
    using assms by (simp add: slice_indices_def offset_slice_def clip_bound_nonneg a b)
qed

lemma getitem_slice_offset:
  assumes "0 < cs"
  shows "getitem_slice xs (offset_slice cs (int i * cs)) = take (nat cs) (drop (i * nat cs) xs)"
proof (cases "i * nat cs \<le> length xs")
  case True
  then show ?thesis
    by (simp add: getitem_slice_def slice_indices_offset [OF assms] min_def)
next
  case False
  then show ?thesis
    by (simp add: getitem_slice_def slice_indices_offset [OF assms] min_def)
qed

lemma concat_chunks:
  "concat (map (\<lambda>i. take c (drop (i * c) xs)) [0 ..< k]) = take (k * c) xs"
proof (induction k)
  case 0
  show ?case by simp
next
  case (Suc k)
  have "take (k * c + c) xs = take (k * c) xs @ take c (drop (k * c) xs)"
    by (rule take_add)
  with Suc show ?case by (simp add: add.commute)
qed

lemma chunk_offsets_nth:
  "chunk_offsets count cs = map (\<lambda>i. int i * cs) [0 ..< nat count]"
  by (simp add: chunk_offsets_def py_range_def)

text \<open>
  Claim C4, as the specification states it, holds for every positive chunk size.
  The count of line 105 is the ceiling of a double: for a time index of four
  entries and the chunk size \<open>10 ^ 330\<close> the quotient rounds to \<open>0.0\<close>, the count is 0
  where the exact ceiling is 1, and no descriptor is emitted at all.
\<close>

theorem chunk_descriptors_partition_counterexample:
  "length four_times = 4
   \<and> time_chunk_count_of (length four_times) (10 ^ 330) = Inr 0
   \<and> map (offset_slice (10 ^ 330)) (chunk_offsets 0 (10 ^ 330)) = []
   \<and> ceil_div (int (length four_times)) (10 ^ 330) = 1"
  by code_simp

text \<open>
  Claim C4, amended. For a positive chunk size \<open>c\<close> below \<open>2 ^ 53\<close> and a time index
  of length \<open>n\<close> below \<open>2 ^ 53\<close> the count of line 105 is \<open>ceil(n / c)\<close>, and there are
  that many slices; slice \<open>i\<close> is \<^verbatim>\<open>slice(i * c, i * c + c)\<close>, which on the time index
  is the half-open range from \<open>i * c\<close> to \<open>min ((i + 1) * c) n\<close> and starts inside the
  index; every slice but the last selects exactly \<open>c\<close> timestamps; and the selected
  pieces, one after the other, are the time index itself, so the ranges cover it
  with no gap and no overlap. These are the count and the slices of every run of
  \<open>main\<close> with this time index and chunk size.
\<close>

theorem chunk_descriptors_partition:
  fixes xs :: "int list" and cs :: int
  defines "chunk_count \<equiv> ceil_div (int (length xs)) cs"
  defines "descriptors \<equiv> map (offset_slice cs) (chunk_offsets chunk_count cs)"
  assumes pos: "0 < cs" and cs_small: "cs < 2 ^ 53" and n_small: "int (length xs) < 2 ^ 53"
  shows "time_chunk_count_of (length xs) cs = Inr chunk_count
    \<and> length descriptors = nat chunk_count
    \<and> (\<forall>i < length descriptors.
          descriptors ! i = Slice (int i * cs) (int i * cs + cs)
        \<and> slice_indices (descriptors ! i) (length xs) =
            (i * nat cs, min ((i + 1) * nat cs) (length xs))
        \<and> i * nat cs < length xs)
    \<and> (\<forall>i. Suc i < length descriptors \<longrightarrow>
          length (getitem_slice xs (descriptors ! i)) = nat cs)
    \<and> concat (map (getitem_slice xs) descriptors) = xs
    \<and> (main climatology input_chunks fl = Inr p \<and> times_index p = xs \<and> time_chunk_size p = cs
         \<longrightarrow> time_chunk_count p = chunk_count \<and> slices p = descriptors)"
proof -
  define c where "c = nat cs"
  define n where "n = length xs"
  define k where "k = nat chunk_count"
  have count: "time_chunk_count_of n cs = Inr chunk_count"
    unfolding chunk_count_def n_def by (rule time_chunk_count_exact [OF pos cs_small n_small])
  have c_pos: "0 < c" and c_int: "int c = cs" using pos by (simp_all add: c_def)
  have count_nonneg: "0 \<le> chunk_count"
    unfolding chunk_count_def by (rule ceil_div_nonneg [OF pos]) simp
  then have k_int: "int k = chunk_count" by (simp add: k_def)
  have "int n \<le> int k * int c" and "int k * int c < int n + int c"
    using ceil_div_bounds [OF pos, of "int n"]
    by (simp_all add: k_int c_int chunk_count_def n_def)
  then have cover: "n \<le> k * c" and tight: "k * c < n + c"
    by (simp_all flip: of_nat_mult of_nat_add)
  have sl_map: "descriptors = map (\<lambda>i. offset_slice cs (int i * cs)) [0 ..< k]"
    by (simp add: descriptors_def chunk_offsets_nth k_def comp_def)
  then have len: "length descriptors = k" by simp
  have start_valid: "i * c < n" if "i < k" for i
  proof -
    from that have "Suc i \<le> k" by simp
    then have "Suc i * c \<le> k * c" by (rule mult_le_mono1)
    with tight show ?thesis by simp
  qed
  have full: "Suc i * c < n" if "Suc i < k" for i
    using start_valid [OF that] .
  have nth_slice: "descriptors ! i = offset_slice cs (int i * cs)" if "i < k" for i
    using that by (simp add: sl_map)
  have indices: "slice_indices (descriptors ! i) n = (i * c, min ((i + 1) * c) n)" if "i < k" for i
    using start_valid [OF that]
    by (simp add: nth_slice [OF that] slice_indices_offset [OF pos] c_def min_def)
  have full_len: "length (getitem_slice xs (descriptors ! i)) = c" if "Suc i < k" for i
  proof -
    from that have "i < k" by simp
    then have "getitem_slice xs (descriptors ! i) = take c (drop (i * c) xs)"
      by (simp add: nth_slice getitem_slice_offset [OF pos] c_def)
    moreover have "i * c + c < n" using full [OF that] by simp
    ultimately show ?thesis by (simp add: n_def)
  qed
  have "concat (map (getitem_slice xs) descriptors) =
          concat (map (\<lambda>i. take c (drop (i * c) xs)) [0 ..< k])"
    by (simp add: sl_map comp_def getitem_slice_offset [OF pos] c_def)
  also have "\<dots> = take (k * c) xs" by (rule concat_chunks)
  also have "\<dots> = xs" using cover by (simp add: n_def)
  finally have partition: "concat (map (getitem_slice xs) descriptors) = xs" .
  have link: "time_chunk_count p = chunk_count \<and> slices p = descriptors"
    if "main climatology input_chunks fl = Inr p" and "times_index p = xs"
      and "time_chunk_size p = cs"
    using that count by (auto simp: main_Inr_iff descriptors_def n_def)
  show ?thesis
    using count len nth_slice indices start_valid full_len partition link
    unfolding n_def [symmetric] k_def [symmetric]
    by (simp add: offset_slice_def c_def [symmetric])
qed

theorem chunk_descriptors_partition_witness:
  "(0 :: int) < 3 \<and> (3 :: int) < 2 ^ 53 \<and> int (length four_times) < 2 ^ 53
   \<and> main hourly_climatology hourly_chunks
        \<lparr>TIME_START = new_year_2017, TIME_STOP = new_year_2017 + 18 * Timedelta_1h,
         TIME_CHUNK_SIZE = Some 3\<rparr> = Inr chunked_day_plan
   \<and> times_index chunked_day_plan = four_times \<and> time_chunk_size chunked_day_plan = 3
   \<and> time_chunk_count_of (length four_times) 3 = Inr 2
   \<and> slices chunked_day_plan = [Slice 0 3, Slice 3 6]
   \<and> slice_indices (Slice 3 6) (length four_times) = (3, 4)
   \<and> getitem_slice four_times (Slice 0 3) @ getitem_slice four_times (Slice 3 6) = four_times"
proof -
  let ?fl = "\<lparr>TIME_START = new_year_2017, TIME_STOP = new_year_2017 + 18 * Timedelta_1h,
       TIME_CHUNK_SIZE = Some 3\<rparr>"
  let ?ds = "map (offset_slice 3) (chunk_offsets (ceil_div (int (length four_times)) 3) 3)"
  have run: "main hourly_climatology hourly_chunks ?fl = Inr chunked_day_plan"
    by code_simp
  have fields: "times_index chunked_day_plan = four_times" "time_chunk_size chunked_day_plan = 3"
    "slices chunked_day_plan = [Slice 0 3, Slice 3 6]"
    by (simp_all add: chunked_day_plan_def)
  have pos: "(0 :: int) < 3" and small: "(3 :: int) < 2 ^ 53" by simp_all
  have n_small: "int (length four_times) < 2 ^ 53" by (simp add: four_times_def)
  have n: "length four_times = 4" by (simp add: four_times_def)
  have ds: "?ds = [Slice 0 3, Slice 3 6]" by code_simp
  have count: "ceil_div (int (length four_times)) 3 = 2" by code_simp
  note part = chunk_descriptors_partition [OF pos small n_small,
      of hourly_climatology hourly_chunks ?fl chunked_day_plan]
  from part have c: "time_chunk_count_of (length four_times) 3 = Inr 2"
    by (simp add: count)
  from part have every: "\<forall>i < length ?ds.
      slice_indices (?ds ! i) (length four_times) =
        (i * nat 3, min ((i + 1) * nat 3) (length four_times))"
    by blast
  have "1 < length ?ds" by (simp add: ds)
  with every have "slice_indices (?ds ! 1) (length four_times) =
        (1 * nat 3, min ((1 + 1) * nat 3) (length four_times))"
    by blast
  then have second: "slice_indices (Slice 3 6) (length four_times) = (3, 4)"
    unfolding ds by (simp add: n)
  from part have "concat (map (getitem_slice four_times) ?ds) = four_times"
    by blast
  then have whole:
    "getitem_slice four_times (Slice 0 3) @ getitem_slice four_times (Slice 3 6) = four_times"
    by (simp add: ds)
  from part run fields have "slices chunked_day_plan = ?ds" by blast
  with pos small n_small run fields c second whole show ?thesis by simp
qed

subsection \<open>Invalid configurations\<close>

lemma date_range_length_small:
  assumes "Timedelta_1h \<le> freq" and "t1 - t0 < 2 ^ 64"
    and "date_range t0 t1 freq = Inr ts"
  shows "int (length ts) < 2 ^ 53"
proof -
  have freq: "0 < freq" "freq \<noteq> 0"
    using assms(1) Timedelta_1h_pos by simp_all
  from assms(3) have len: "length ts = nat ((t1 - t0) div freq + 1)"
    unfolding date_range_nonzero [OF freq(2)] by auto
  show ?thesis
  proof (cases "0 \<le> t1 - t0")
    case True
    then have "(t1 - t0) div freq \<le> (t1 - t0) div Timedelta_1h"
      using assms(1) Timedelta_1h_pos by (intro zdiv_mono2) simp_all
    also have "\<dots> \<le> 2 ^ 64 div Timedelta_1h"
      using assms(2) Timedelta_1h_pos by (intro zdiv_mono1) simp_all
    also have "\<dots> < 2 ^ 53 - 1" by (simp add: Timedelta_1h_def)
    finally have "(t1 - t0) div freq + 1 < 2 ^ 53" by simp
    moreover have "0 \<le> (t1 - t0) div freq"
      using True freq by (simp add: pos_imp_zdiv_nonneg_iff)
    ultimately show ?thesis by (simp add: len)
  next
    case False
    then have "(t1 - t0) div freq < 0"
      using freq by (simp add: pos_imp_zdiv_neg_iff)
    then show ?thesis by (simp add: len)
  qed
qed

lemma date_range_inverted:
  assumes "0 < freq" and "t1 < t0"
  shows "date_range t0 t1 freq = Inr []"
proof -
  from assms have "(t1 - t0) div freq < 0"
    by (simp add: pos_imp_zdiv_neg_iff)
  moreover have "freq \<noteq> 0" using assms(1) by simp
  ultimately show ?thesis by (simp add: date_range_nonzero)
qed

lemma date_range_nonempty:
  assumes "0 < freq" and "t0 \<le> t1" and "date_range t0 t1 freq = Inr ts"
  shows "ts \<noteq> []"
proof -
  from assms(1,2) have "0 \<le> (t1 - t0) div freq"
    by (simp add: pos_imp_zdiv_nonneg_iff)
  moreover have "freq \<noteq> 0" using assms(1) by simp
  ultimately show ?thesis using assms(3) by (auto simp: date_range_nonzero)
qed

lemma make_template_total:
  assumes "hour_delta_time_dims climatology = Inr (hour_delta, time_dims)"
    and "clim_dayofyear climatology \<noteq> []"
    and "''time'' \<notin> set (clim_other_coords climatology)"
  shows "make_template climatology time_dims ts =
           Inr \<lparr>tmpl_coords = clim_other_coords climatology @ [''time''],
                tmpl_time = ts,
                tmpl_vars = map fst (clim_vars climatology)\<rparr>"
  using assms
  by (auto simp: make_template_def hour_delta_time_dims_def dim_size_def getitem_def
      split: option.splits if_splits)

lemma set_update_subset:
  "set (AList.update k v al) \<subseteq> insert (k, v) (set al)"
  by (induction al) auto

lemma output_chunks_values:
  assumes "(d, c) \<in> set (output_chunks_of time_dims input_chunks cs)"
  shows "c = cs \<or> c = - 1"
proof -
  define xs where "xs = filter (\<lambda>dim. dim \<notin> set time_dims) (map fst input_chunks)"
  from assms have "(d, c) \<in> set (AList.update ''time'' cs (map (\<lambda>dim. (dim, - 1)) xs))"
    by (simp only: output_chunks_of_def xs_def)
  then have "(d, c) \<in> insert (''time'', cs) (set (map (\<lambda>dim. (dim, - 1)) xs))"
    by (rule set_update_subset [THEN subsetD])
  then have "(d, c) = (''time'', cs) \<or> (d, c) \<in> (\<lambda>dim. (dim, - 1)) ` set xs"
    by simp
  then show ?thesis
  proof
    assume "(d, c) = (''time'', cs)"
    then show ?thesis by simp
  next
    assume "(d, c) \<in> (\<lambda>dim. (dim, - 1)) ` set xs"
    then obtain x where "(d, c) = (x, - 1)" by (rule imageE)
    then show ?thesis by simp
  qed
qed

lemma no_offsets:
  assumes "count \<le> 0"
  shows "chunk_offsets count cs = []"
  using assms by (simp add: chunk_offsets_def py_range_def)

text \<open>
  Claim C2, as the specification states it, has \<open>main\<close> fail with a configuration
  error for every chunk size that is not positive. \<open>main\<close> checks neither the time
  range nor the chunk size: with the chunk size \<open>-1\<close> it runs to its end without an
  exception, hands the writer the extent \<open>-1\<close> for \<open>time\<close>, creates no work item and
  writes no fragment.
\<close>

theorem no_configuration_error_counterexample:
  "main hourly_climatology hourly_chunks
      \<lparr>TIME_START = new_year_2017, TIME_STOP = new_year_2017 + 18 * Timedelta_1h,
       TIME_CHUNK_SIZE = Some (- 1)\<rparr>
     = Inr \<lparr>times_index = four_times, time_chunk_size = - 1, time_chunk_count = - 4,
            output_chunks = [(''latitude'', - 1), (''time'', - 1)],
            offsets = [], slices = [],
            output_template = four_times_template,
            written = []\<rparr>"
  by code_simp

text \<open>
  Claim C2, amended. For a positive period step, a climatology whose template can
  be built, and timestamps less than \<open>2 ^ 64\<close> nanoseconds apart: a chunk size of 0
  makes \<open>main\<close> fail with \<open>ZeroDivisionError\<close> on line 105, before any work item is
  created; when \<open>time_stop\<close> precedes \<open>time_start\<close> (and the chunk size is not 0), and
  when the chunk size is below \<open>-1\<close>, \<open>main\<close> fails with the \<open>ValueError\<close> that the
  set-up of the writer raises; with the chunk size \<open>-1\<close> and \<open>time_start \<le> time_stop\<close>
  \<open>main\<close> raises nothing, creates no work item and writes no fragment. In all these
  cases but the first the list of offsets given to \<^verbatim>\<open>beam.Create\<close> is empty.
\<close>

theorem invalid_configuration_outcome:
  assumes step: "hour_delta_time_dims climatology = Inr (hour_delta, time_dims)"
    and step_pos: "0 < hour_delta"
    and days: "clim_dayofyear climatology \<noteq> []"
    and no_time: "''time'' \<notin> set (clim_other_coords climatology)"
    and size: "resolve_time_chunk_size (TIME_CHUNK_SIZE fl) input_chunks = Inr cs"
    and span: "TIME_STOP fl - TIME_START fl < 2 ^ 64"
  shows "(cs = 0 \<longrightarrow> main climatology input_chunks fl = Inl ZeroDivisionError)
    \<and> (TIME_STOP fl < TIME_START fl \<and> cs \<noteq> 0 \<longrightarrow>
          main climatology input_chunks fl = Inl ValueError)
    \<and> (cs < - 1 \<longrightarrow> main climatology input_chunks fl = Inl ValueError)
    \<and> (cs = - 1 \<and> TIME_START fl \<le> TIME_STOP fl \<longrightarrow>
          (\<exists>p. main climatology input_chunks fl = Inr p \<and> time_chunk_size p = - 1
               \<and> offsets p = [] \<and> slices p = [] \<and> written p = []))
    \<and> (cs < 0 \<or> TIME_STOP fl < TIME_START fl \<longrightarrow>
          (\<forall>ts chunk_count.
              date_range (TIME_START fl) (TIME_STOP fl) (hour_delta * Timedelta_1h) = Inr ts
              \<and> time_chunk_count_of (length ts) cs = Inr chunk_count
              \<longrightarrow> chunk_offsets chunk_count cs = []))"
proof -
  define freq where "freq = hour_delta * Timedelta_1h"
  have freq_pos: "0 < freq"
    using step_pos Timedelta_1h_pos by (simp add: freq_def)
  obtain ts where ts: "date_range (TIME_START fl) (TIME_STOP fl) freq = Inr ts"
    using freq_pos by (simp add: date_range_nonzero)
  define tmpl where "tmpl = \<lparr>tmpl_coords = clim_other_coords climatology @ [''time''],
                tmpl_time = ts, tmpl_vars = map fst (clim_vars climatology)\<rparr>"
  have template: "make_template climatology time_dims ts = Inr tmpl"
    unfolding tmpl_def by (rule make_template_total [OF step days no_time])
  have freq_big: "Timedelta_1h \<le> freq"
    using step_pos Timedelta_1h_pos by (simp add: freq_def)
  have n_small: "int (length ts) < 2 ^ 53"
    by (rule date_range_length_small [OF freq_big span ts])
  have empty: "ts = []" if "TIME_STOP fl < TIME_START fl"
    using date_range_inverted [OF freq_pos that] ts by simp
  have nonempty: "ts \<noteq> []" if "TIME_START fl \<le> TIME_STOP fl"
    by (rule date_range_nonempty [OF freq_pos that ts])
  have layout: "(time_chunk, cs) \<in> set (output_chunks_of time_dims input_chunks cs)"
    if "time_chunk = ''time''" for time_chunk
    using map_of_output_chunks_of [of time_dims input_chunks cs "''time''"] that
    by (auto dest: map_of_SomeD)
  have layout_unchunked: "\<not> (\<exists>c \<in> snd ` set (output_chunks_of time_dims input_chunks (- 1)). c < - 1)"
    by (auto dest: output_chunks_values)
  have zero: "main climatology input_chunks fl = Inl ZeroDivisionError" if "cs = 0"
    using that step size ts template
    by (simp add: main_def time_chunk_count_of_def true_div_ceil_def freq_def)
  have count_empty: "time_chunk_count_of (length ts) cs = Inr 0" if "ts = []" and "cs \<noteq> 0"
    using that by (simp add: time_chunk_count_of_def true_div_ceil_def)
  have count_neg: "\<exists>c. time_chunk_count_of (length ts) cs = Inr c \<and> c \<le> 0" if "cs < 0"
    unfolding time_chunk_count_of_def
    by (rule true_div_ceil_negative_divisor [OF _ n_small that]) simp
  have inverted: "main climatology input_chunks fl = Inl ValueError"
    if "TIME_STOP fl < TIME_START fl" and "cs \<noteq> 0"
    using step size ts template count_empty [OF empty [OF that(1)] that(2)] empty [OF that(1)]
    by (simp add: main_def freq_def ChunksToZarr_init_def tmpl_def)
  have too_small: "main climatology input_chunks fl = Inl ValueError" if "cs < - 1"
  proof -
    from that count_neg obtain c where c: "time_chunk_count_of (length ts) cs = Inr c"
      by auto
    have "\<exists>c' \<in> snd ` set (output_chunks_of time_dims input_chunks cs). c' < - 1"
      using layout [OF refl] that by force
    then have "ChunksToZarr_init tmpl (output_chunks_of time_dims input_chunks cs) = Inl ValueError"
      by (simp add: ChunksToZarr_init_def)
    with step size ts template c show ?thesis
      by (simp add: main_def freq_def)
  qed
  have unchunked: "\<exists>p. main climatology input_chunks fl = Inr p \<and> time_chunk_size p = - 1
               \<and> offsets p = [] \<and> slices p = [] \<and> written p = []"
    if "cs = - 1" and "TIME_START fl \<le> TIME_STOP fl"
  proof -
    from that(1) count_neg obtain c where c: "time_chunk_count_of (length ts) cs = Inr c"
      and c_le: "c \<le> 0" by auto
    have writer_ok: "ChunksToZarr_init tmpl (output_chunks_of time_dims input_chunks cs) = Inr ()"
      using layout_unchunked nonempty [OF that(2)] that(1)
      by (simp add: ChunksToZarr_init_def tmpl_def)
    show ?thesis
      using step size ts template c writer_ok no_offsets [OF c_le] that(1)
      by (simp add: main_def freq_def)
  qed
  have no_items: "chunk_offsets chunk_count cs = []"
    if "cs < 0 \<or> TIME_STOP fl < TIME_START fl"
      and "date_range (TIME_START fl) (TIME_STOP fl) (hour_delta * Timedelta_1h) = Inr ts'"
      and "time_chunk_count_of (length ts') cs = Inr chunk_count" for ts' chunk_count
  proof -
    from that(2) ts have ts': "ts' = ts" by (simp add: freq_def)
    have "chunk_count \<le> 0"
    proof (cases "cs < 0")
      case True
      with count_neg that(3) show ?thesis by (auto simp: ts')
    next
      case False
      with that(1) have inv: "TIME_STOP fl < TIME_START fl" by simp
      have "cs \<noteq> 0" using that(3) by (auto simp: time_chunk_count_of_def true_div_ceil_def)
      from count_empty [OF empty [OF inv] this] that(3) show ?thesis by (simp add: ts')
    qed
    then show ?thesis by (rule no_offsets)
  qed
  from zero inverted too_small unchunked no_items show ?thesis by blast
qed

theorem invalid_configuration_outcome_witness:
  "hour_delta_time_dims hourly_climatology = Inr (6, [''hour'', ''dayofyear''])
   \<and> (0 :: int) < 6
   \<and> clim_dayofyear hourly_climatology = [1, 2, 3]
   \<and> clim_other_coords hourly_climatology = [''latitude'']
   \<and> new_years_eve_2016 < new_year_2017
   \<and> main hourly_climatology hourly_chunks
        \<lparr>TIME_START = new_year_2017, TIME_STOP = new_year_2017 + 18 * Timedelta_1h,
         TIME_CHUNK_SIZE = Some 0\<rparr> = Inl ZeroDivisionError
   \<and> main hourly_climatology hourly_chunks
        \<lparr>TIME_START = new_year_2017, TIME_STOP = new_years_eve_2016,
         TIME_CHUNK_SIZE = Some 3\<rparr> = Inl ValueError
   \<and> main hourly_climatology hourly_chunks
        \<lparr>TIME_START = new_year_2017, TIME_STOP = new_year_2017 + 18 * Timedelta_1h,
         TIME_CHUNK_SIZE = Some (- 2)\<rparr> = Inl ValueError
   \<and> main hourly_climatology hourly_chunks
        \<lparr>TIME_START = new_year_2017, TIME_STOP = new_year_2017 + 18 * Timedelta_1h,
         TIME_CHUNK_SIZE = Some (- 1)\<rparr> = Inr unchunked_day_plan
   \<and> offsets unchunked_day_plan = [] \<and> written unchunked_day_plan = []
   \<and> time_chunk_count_of (length four_times) (- 2) = Inr (- 2)
   \<and> chunk_offsets (- 2) (- 2) = []"
proof -
  let ?day = "new_year_2017 + 18 * Timedelta_1h"
  have step: "hour_delta_time_dims hourly_climatology = Inr (6, [''hour'', ''dayofyear''])"
    by (simp add: hour_delta_time_dims_def hourly_climatology_def getitem_def)
  have pos: "(0 :: int) < 6" by simp
  have days: "clim_dayofyear hourly_climatology = [1, 2, 3]"
    and others: "clim_other_coords hourly_climatology = [''latitude'']"
    by (simp_all add: hourly_climatology_def)
  have days': "clim_dayofyear hourly_climatology \<noteq> []"
    and no_time: "''time'' \<notin> set (clim_other_coords hourly_climatology)"
    by (simp_all add: days others)
  have before: "new_years_eve_2016 < new_year_2017"
    by (simp add: new_years_eve_2016_def new_year_2017_def Timedelta_1d_def Timedelta_1h_def)
  have size: "resolve_time_chunk_size (TIME_CHUNK_SIZE
      \<lparr>TIME_START = t0, TIME_STOP = t1, TIME_CHUNK_SIZE = Some n\<rparr>) hourly_chunks = Inr n"
    for t0 t1 n
    by (simp add: resolve_time_chunk_size_def)
  have span_day: "TIME_STOP \<lparr>TIME_START = new_year_2017, TIME_STOP = ?day, TIME_CHUNK_SIZE = Some n\<rparr>
      - TIME_START \<lparr>TIME_START = new_year_2017, TIME_STOP = ?day, TIME_CHUNK_SIZE = Some n\<rparr>
      < 2 ^ 64" for n
    by (simp add: Timedelta_1h_def)
  have span_inv: "TIME_STOP \<lparr>TIME_START = new_year_2017, TIME_STOP = new_years_eve_2016,
          TIME_CHUNK_SIZE = Some n\<rparr>
      - TIME_START \<lparr>TIME_START = new_year_2017, TIME_STOP = new_years_eve_2016,
          TIME_CHUNK_SIZE = Some n\<rparr> < 2 ^ 64" for n
    by (simp add: new_years_eve_2016_def new_year_2017_def Timedelta_1d_def Timedelta_1h_def)
  have range: "date_range new_year_2017 ?day (6 * Timedelta_1h) = Inr four_times"
    by code_simp
  have count: "time_chunk_count_of (length four_times) (- 2) = Inr (- 2)"
    by code_simp
  have run: "main hourly_climatology hourly_chunks
        \<lparr>TIME_START = new_year_2017, TIME_STOP = ?day, TIME_CHUNK_SIZE = Some (- 1)\<rparr>
      = Inr unchunked_day_plan"
    by code_simp
  have fields: "offsets unchunked_day_plan = []" "written unchunked_day_plan = []"
    by (simp_all add: unchunked_day_plan_def)
  note zero = invalid_configuration_outcome [OF step pos days' no_time size span_day, of 0]
  note inverted = invalid_configuration_outcome [OF step pos days' no_time size span_inv, of 3]
  note small = invalid_configuration_outcome [OF step pos days' no_time size span_day, of "- 2"]
  note unchunked = invalid_configuration_outcome [OF step pos days' no_time size span_day, of "- 1"]
  from zero have z: "main hourly_climatology hourly_chunks
        \<lparr>TIME_START = new_year_2017, TIME_STOP = ?day, TIME_CHUNK_SIZE = Some 0\<rparr>
      = Inl ZeroDivisionError"
    by simp
  from inverted before have i: "main hourly_climatology hourly_chunks
        \<lparr>TIME_START = new_year_2017, TIME_STOP = new_years_eve_2016, TIME_CHUNK_SIZE = Some 3\<rparr>
      = Inl ValueError"
    by simp
  from small have s: "main hourly_climatology hourly_chunks
        \<lparr>TIME_START = new_year_2017, TIME_STOP = ?day, TIME_CHUNK_SIZE = Some (- 2)\<rparr>
      = Inl ValueError"
    by simp
  from small range count have o: "chunk_offsets (- 2) (- 2) = []"
    by simp
  from unchunked run have "time_chunk_size unchunked_day_plan = - 1"
    by auto
  with step pos days others before z i s run fields count o show ?thesis by simp
qed

section \<open>Properties of \<^verbatim>\<open>select_climatology\<close>\<close>

subsection \<open>The lookup\<close>

lemma index_of_None_iff: "index_of ys x = None \<longleftrightarrow> x \<notin> set ys"
  by (induction ys) auto

lemma those_map_None:
  "\<exists>x \<in> set xs. f x = None \<Longrightarrow> those (map f xs) = None"
  by (induction xs) (auto split: option.splits)

lemma those_map_Some:
  "\<forall>x \<in> set xs. f x \<noteq> None \<Longrightarrow> those (map f xs) = Some (map (\<lambda>x. the (f x)) xs)"
  by (induction xs) (auto split: option.splits)

lemma sel_positions_repeated:
  assumes "\<not> distinct index"
  shows "sel_positions name index labels = Inl InvalidIndexError"
  using assms by (simp add: sel_positions_def)

lemma sel_positions_missing:
  assumes "distinct index" and "\<exists>x \<in> set labels. x \<notin> set index"
  shows "sel_positions name index labels = Inl (KeyError (''not all values found in index '' @ name))"
proof -
  from assms(2) have "\<exists>x \<in> set labels. index_of index x = None"
    by (simp add: index_of_None_iff)
  then have "those (map (index_of index) labels) = None"
    by (rule those_map_None)
  with assms(1) show ?thesis by (simp add: sel_positions_def)
qed

lemma sel_positions_present:
  assumes "distinct index" and "\<forall>x \<in> set labels. x \<in> set index"
  shows "sel_positions name index labels = Inr (map (\<lambda>x. the (index_of index x)) labels)"
proof -
  from assms(2) have "\<forall>x \<in> set labels. index_of index x \<noteq> None"
    by (simp add: index_of_None_iff)
  then have "those (map (index_of index) labels) = Some (map (\<lambda>x. the (index_of index x)) labels)"
    by (rule those_map_Some)
  with assms(1) show ?thesis by (simp add: sel_positions_def)
qed

lemma sel_positions_cases:
  "sel_positions name index labels =
     (if \<not> distinct index then Inl InvalidIndexError
      else if \<forall>x \<in> set labels. x \<in> set index
      then Inr (map (\<lambda>x. the (index_of index x)) labels)
      else Inl (KeyError (''not all values found in index '' @ name)))"
  using sel_positions_present [of index labels name] sel_positions_missing [of index labels name]
    sel_positions_repeated [of index name labels]
  by auto

lemma hour_branch_lookup:
  assumes "clim_hour climatology = Some hs"
    and "distinct (clim_dayofyear climatology)" and "distinct hs"
    and "\<forall>t \<in> set chunk_times.
           dt_dayofyear t \<in> set (clim_dayofyear climatology) \<and> dt_hour t \<in> set hs"
  shows "lookup_chunk climatology chunk_times =
     Inr \<lparr>ds_coords = removeAll ''hour'' (removeAll ''dayofyear'' (coords_of climatology @ [''time''])),
          ds_time = chunk_times,
          ds_vars = map (\<lambda>(name, v).
                      (name, map (\<lambda>(i, j). v ! i ! j)
                         (zip (map (\<lambda>x. the (index_of (clim_dayofyear climatology) x))
                                 (map dt_dayofyear chunk_times))
                              (map (\<lambda>x. the (index_of hs x)) (map dt_hour chunk_times)))))
                    (clim_vars climatology)\<rparr>"
  using assms
  by (simp add: lookup_chunk_def sel_dayofyear_hour_def sel_positions_cases del_coord_def
      coords_of_def)

lemma lookup_chunk_missing:
  assumes "t \<in> set chunk_times"
    and "dt_dayofyear t \<notin> set (clim_dayofyear climatology)
         \<or> (\<exists>hs. clim_hour climatology = Some hs \<and> dt_hour t \<notin> set hs)"
  shows "lookup_chunk climatology chunk_times =
     (if \<not> distinct (clim_dayofyear climatology) then Inl InvalidIndexError
      else if \<not> (\<forall>t \<in> set chunk_times. dt_dayofyear t \<in> set (clim_dayofyear climatology))
      then Inl (KeyError ''not all values found in index dayofyear'')
      else if \<not> distinct (the (clim_hour climatology)) then Inl InvalidIndexError
      else Inl (KeyError ''not all values found in index hour''))"
proof (cases "clim_hour climatology")
  case None
  with assms show ?thesis
    by (auto simp: lookup_chunk_def sel_dayofyear_def sel_positions_cases)
next
  case (Some hs)
  with assms show ?thesis
    by (auto simp: lookup_chunk_def sel_dayofyear_hour_def sel_positions_cases)
qed

lemma no_hour_branch_raises:
  assumes "clim_hour climatology = None" and "wf_climatology climatology"
  shows "lookup_chunk climatology chunk_times =
     (if \<not> distinct (clim_dayofyear climatology) then Inl InvalidIndexError
      else if \<forall>t \<in> set chunk_times. dt_dayofyear t \<in> set (clim_dayofyear climatology)
      then Inl (KeyError ''hour'')
      else Inl (KeyError ''not all values found in index dayofyear''))"
  using assms
  by (simp add: lookup_chunk_def sel_dayofyear_def sel_positions_cases del_coord_def coords_of_def
      wf_climatology_def)

text \<open>
  Claim C6. When the slice holds a timestamp whose day of the year is not a label of
  the climatology, or whose hour is not a label of its hour coordinate, the selector
  yields nothing and raises: the \<^verbatim>\<open>KeyError\<close> of the label lookup, for the index
  \<open>dayofyear\<close> or for the index \<open>hour\<close>, when the labels of both indexes are unique,
  and otherwise either that \<^verbatim>\<open>KeyError\<close> or the \<^verbatim>\<open>InvalidIndexError\<close> with which pandas
  refuses an index with a repeated label. The worked example is a climatology with
  the days 1 to 365 and a slice that holds 2016-12-31, day 366.
\<close>

theorem missing_label_raises:
  assumes "t \<in> set (getitem_slice time_index time_slice)"
    and "dt_dayofyear t \<notin> set (clim_dayofyear climatology)
         \<or> (\<exists>hs. clim_hour climatology = Some hs \<and> dt_hour t \<notin> set hs)"
  shows "(select_climatology time_slice climatology time_index =
            Inl (KeyError ''not all values found in index dayofyear'')
        \<or> select_climatology time_slice climatology time_index =
            Inl (KeyError ''not all values found in index hour'')
        \<or> select_climatology time_slice climatology time_index = Inl InvalidIndexError)
       \<and> (distinct (clim_dayofyear climatology)
           \<and> (\<forall>hs. clim_hour climatology = Some hs \<longrightarrow> distinct hs) \<longrightarrow>
            select_climatology time_slice climatology time_index =
              Inl (KeyError ''not all values found in index dayofyear'')
          \<or> select_climatology time_slice climatology time_index =
              Inl (KeyError ''not all values found in index hour''))"
proof -
  note lookup = lookup_chunk_missing [OF assms]
  have sel: "select_climatology time_slice climatology time_index = Inl e"
    if "lookup_chunk climatology (getitem_slice time_index time_slice) = Inl e" for e
    using that by (simp add: select_climatology_def)
  show ?thesis
  proof (cases "distinct (clim_dayofyear climatology)")
    case False
    with lookup sel show ?thesis by simp
  next
    case days: True
    show ?thesis
    proof (cases "\<forall>t \<in> set (getitem_slice time_index time_slice).
                    dt_dayofyear t \<in> set (clim_dayofyear climatology)")
      case False
      with days lookup sel show ?thesis by simp
    next
      case True
      with assms obtain hs where hs: "clim_hour climatology = Some hs" by auto
      show ?thesis
      proof (cases "distinct hs")
        case True
        with days \<open>\<forall>t \<in> set (getitem_slice time_index time_slice).
                    dt_dayofyear t \<in> set (clim_dayofyear climatology)\<close> hs lookup sel
        show ?thesis by simp
      next
        case False
        with days \<open>\<forall>t \<in> set (getitem_slice time_index time_slice).
                    dt_dayofyear t \<in> set (clim_dayofyear climatology)\<close> hs lookup sel
        show ?thesis by simp
      qed
    qed
  qed
qed

theorem missing_label_raises_witness:
  "new_years_eve_2016 \<in> set (getitem_slice year_end_times (Slice 0 2))
   \<and> dt_dayofyear new_years_eve_2016 = 366
   \<and> dt_dayofyear new_years_eve_2016 \<notin> set (clim_dayofyear no_leap_climatology)
   \<and> distinct (clim_dayofyear no_leap_climatology)
   \<and> clim_hour no_leap_climatology = Some [0, 12]
   \<and> select_climatology (Slice 0 2) no_leap_climatology year_end_times =
        Inl (KeyError ''not all values found in index dayofyear'')"
proof -
  have mem: "new_years_eve_2016 \<in> set (getitem_slice year_end_times (Slice 0 2))"
    by code_simp
  have day: "dt_dayofyear new_years_eve_2016 = 366"
    by code_simp
  have missing: "dt_dayofyear new_years_eve_2016 \<notin> set (clim_dayofyear no_leap_climatology)"
    by code_simp
  have days: "distinct (clim_dayofyear no_leap_climatology)"
    by (simp add: no_leap_climatology_def distinct_map)
  have hours: "clim_hour no_leap_climatology = Some [0, 12]"
    by (simp add: no_leap_climatology_def)
  then have hours': "\<forall>hs. clim_hour no_leap_climatology = Some hs \<longrightarrow> distinct hs"
    by simp
  have "\<not> (\<forall>t \<in> set (getitem_slice year_end_times (Slice 0 2)).
           dt_dayofyear t \<in> set (clim_dayofyear no_leap_climatology))"
    using mem missing by blast
  with lookup_chunk_missing [OF mem disjI1 [OF missing]] days
  have "lookup_chunk no_leap_climatology (getitem_slice year_end_times (Slice 0 2)) =
        Inl (KeyError ''not all values found in index dayofyear'')"
    by simp
  then have run: "select_climatology (Slice 0 2) no_leap_climatology year_end_times =
        Inl (KeyError ''not all values found in index dayofyear'')"
    by (simp add: select_climatology_def)
  from missing_label_raises [OF mem disjI1 [OF missing]] mem day missing days hours hours' run
  show ?thesis by simp
qed

subsection \<open>The periodic coordinates\<close>

text \<open>
  With an hour coordinate, unique labels and every label present, the lookup
  removes both periodic coordinates: the result has the other coordinates of the
  climatology and \<open>time\<close>.
\<close>

lemma hour_branch_strips_periodic_coords:
  assumes "clim_hour climatology = Some hs" and "wf_climatology climatology"
    and "distinct (clim_dayofyear climatology)" and "distinct hs"
    and "\<forall>t \<in> set chunk_times.
           dt_dayofyear t \<in> set (clim_dayofyear climatology) \<and> dt_hour t \<in> set hs"
  shows "\<exists>chunk. lookup_chunk climatology chunk_times = Inr chunk
           \<and> set (ds_coords chunk) = set (clim_other_coords climatology) \<union> {''time''}"
  using assms(1,2) hour_branch_lookup [OF assms(1) assms(3) assms(4) assms(5)]
  by (auto simp: coords_of_def wf_climatology_def)

text \<open>
  Without an hour coordinate the second branch deletes the coordinate \<open>hour\<close>, which
  the dataset does not have, where the first branch deletes \<open>dayofyear\<close> and \<open>hour\<close>:
  the statement raises \<^verbatim>\<open>KeyError\<close>, and the selector never yields a pair for such a
  climatology.
\<close>

lemma select_climatology_no_hour_raises:
  assumes "clim_hour climatology = None" and "wf_climatology climatology"
  shows "\<exists>e. select_climatology time_slice climatology time_index = Inl e"
  using no_hour_branch_raises [OF assms, of "getitem_slice time_index time_slice"]
  by (simp add: select_climatology_def)

text \<open>
  Claim C1 says that for a climatology without hour coordinate the selector
  succeeds and strips the periodic coordinates. On the daily climatology of three
  days and the first two days of 2017, whose days of the year 1 and 2 are both
  labels of the climatology, it raises \<^verbatim>\<open>KeyError('hour')\<close>. The help text of the flag
  \<^verbatim>\<open>input_path\<close> names daily climatologies as an input the script accepts.
\<close>

theorem select_climatology_daily_raises:
  "clim_hour daily_climatology = None
   \<and> getitem_slice daily_times (Slice 0 2) = [new_year_2017, new_year_2017 + Timedelta_1d]
   \<and> map dt_dayofyear [new_year_2017, new_year_2017 + Timedelta_1d] = [1, 2]
   \<and> select_climatology (Slice 0 2) daily_climatology daily_times = Inl (KeyError ''hour'')"
  by code_simp

subsection \<open>One fragment per variable\<close>

lemma map_of_key:
  assumes "k \<in> fst ` set al"
  shows "\<exists>v. map_of al k = Some v"
proof (cases "map_of al k")
  case None
  with assms show ?thesis by (simp add: map_of_eq_None_iff)
next
  case (Some v)
  then show ?thesis by simp
qed

lemma emit_total:
  assumes "set names \<subseteq> fst ` set (ds_vars chunk)"
  shows "emit time_slice chunk names =
     Inr (map (\<lambda>n. (Key [(''time'', slice_start time_slice)] {n},
                     chunk\<lparr>ds_vars := [(n, the (map_of (ds_vars chunk) n))]\<rparr>)) names)"
  using assms
proof (induction names)
  case Nil
  show ?case by simp
next
  case (Cons n names)
  from Cons.prems have "n \<in> fst ` set (ds_vars chunk)" by simp
  then obtain v where "map_of (ds_vars chunk) n = Some v"
    using map_of_key by fastforce
  moreover from Cons have "emit time_slice chunk names =
     Inr (map (\<lambda>n. (Key [(''time'', slice_start time_slice)] {n},
                     chunk\<lparr>ds_vars := [(n, the (map_of (ds_vars chunk) n))]\<rparr>)) names)"
    by simp
  ultimately show ?case by (simp add: getitem_var_def)
qed

lemma map_of_selected:
  "map_of (map (\<lambda>(name, v). (name, f v)) vars) n = map_option f (map_of vars n)"
  by (induction vars) auto

text \<open>
  Claim C7, as the specification states it, holds for every climatology and every
  slice. The selector yields nothing when a label is missing: the six-hourly
  climatology has two variables and the labels 0, 6, 12 and 18, the slice covers the
  four timestamps 03:00, 09:00, 15:00 and 21:00 of 2017-01-01, and the result is the
  \<^verbatim>\<open>KeyError\<close> of the lookup. It yields nothing either when a label of the index is
  repeated: with the day-of-year labels 1, 1 and 2 the lookup of the four timestamps
  of 2017-01-01 raises \<^verbatim>\<open>InvalidIndexError\<close>.
\<close>

theorem one_fragment_per_variable_counterexample:
  "length (clim_vars hourly_climatology) = 2
   \<and> length (getitem_slice offset_times (Slice 0 4)) = 4
   \<and> select_climatology (Slice 0 4) hourly_climatology offset_times =
        Inl (KeyError ''not all values found in index hour'')
   \<and> length (getitem_slice four_times (Slice 0 4)) = 4
   \<and> select_climatology (Slice 0 4)
        (hourly_climatology\<lparr>clim_dayofyear := [1, 1, 2]\<rparr>) four_times = Inl InvalidIndexError"
  by code_simp

text \<open>
  Claim C7, amended. For a climatology with an hour coordinate whose day-of-year
  labels and hour labels are unique, and a slice whose timestamps all have their
  day of the year and their hour among the labels, the selector yields one pair per
  variable of the climatology, in their order: the key has the offset
  \<open>time = time_slice.start\<close> and the one variable's name, the fragment holds that
  variable alone, the timestamps of the whole slice, and one value per timestamp.
\<close>

theorem one_fragment_per_variable:
  assumes hour: "clim_hour climatology = Some hs"
    and days_unique: "distinct (clim_dayofyear climatology)"
    and hours_unique: "distinct hs"
    and present: "\<forall>t \<in> set (getitem_slice time_index time_slice).
           dt_dayofyear t \<in> set (clim_dayofyear climatology) \<and> dt_hour t \<in> set hs"
  shows "\<exists>kvs. select_climatology time_slice climatology time_index = Inr kvs
     \<and> length kvs = length (clim_vars climatology)
     \<and> (\<forall>i < length kvs.
          key_offsets (fst (kvs ! i)) = [(''time'', slice_start time_slice)]
        \<and> key_vars (fst (kvs ! i)) = {fst (clim_vars climatology ! i)}
        \<and> map fst (ds_vars (snd (kvs ! i))) = [fst (clim_vars climatology ! i)]
        \<and> ds_time (snd (kvs ! i)) = getitem_slice time_index time_slice
        \<and> (\<forall>v \<in> snd ` set (ds_vars (snd (kvs ! i))).
              length v = length (getitem_slice time_index time_slice)))"
proof -
  define chunk_times where "chunk_times = getitem_slice time_index time_slice"
  define pick :: "'a list list \<Rightarrow> 'a list" where
    "pick = (\<lambda>v. map (\<lambda>(i, j). v ! i ! j)
               (zip (map (\<lambda>x. the (index_of (clim_dayofyear climatology) x))
                       (map dt_dayofyear chunk_times))
                    (map (\<lambda>x. the (index_of hs x)) (map dt_hour chunk_times))))"
  define chunk where "chunk =
     \<lparr>ds_coords = removeAll ''hour'' (removeAll ''dayofyear'' (coords_of climatology @ [''time''])),
      ds_time = chunk_times,
      ds_vars = map (\<lambda>(name, v). (name, pick v)) (clim_vars climatology)\<rparr>"
  define kvs where "kvs =
     map (\<lambda>n. (Key [(''time'', slice_start time_slice)] {n},
                chunk\<lparr>ds_vars := [(n, the (map_of (ds_vars chunk) n))]\<rparr>))
         (map fst (ds_vars chunk))"
  have lookup: "lookup_chunk climatology chunk_times = Inr chunk"
    using hour_branch_lookup [OF hour days_unique hours_unique, of chunk_times] present
    by (simp add: chunk_times_def chunk_def pick_def)
  have "emit time_slice chunk (map fst (ds_vars chunk)) = Inr kvs"
    unfolding kvs_def by (rule emit_total) simp
  with lookup have run: "select_climatology time_slice climatology time_index = Inr kvs"
    by (simp add: select_climatology_def chunk_times_def)
  have names: "map fst (ds_vars chunk) = map fst (clim_vars climatology)"
    by (simp add: chunk_def comp_def case_prod_unfold)
  have len: "length kvs = length (clim_vars climatology)"
    by (simp add: kvs_def chunk_def)
  have pick_len: "length (pick v) = length chunk_times" for v
    by (simp add: pick_def)
  have nth: "kvs ! i = (Key [(''time'', slice_start time_slice)] {fst (clim_vars climatology ! i)},
       chunk\<lparr>ds_vars := [(fst (clim_vars climatology ! i),
                 the (map_of (ds_vars chunk) (fst (clim_vars climatology ! i))))]\<rparr>)"
    if "i < length (clim_vars climatology)" for i
    using that unfolding kvs_def names by simp
  have found: "\<exists>v. map_of (ds_vars chunk) (fst (clim_vars climatology ! i)) = Some (pick v)"
    if "i < length (clim_vars climatology)" for i
  proof -
    from that have "fst (clim_vars climatology ! i) \<in> fst ` set (clim_vars climatology)"
      by simp
    then obtain v where "map_of (clim_vars climatology) (fst (clim_vars climatology ! i)) = Some v"
      using map_of_key by fastforce
    then have "map_of (ds_vars chunk) (fst (clim_vars climatology ! i)) = Some (pick v)"
      by (simp add: chunk_def map_of_selected)
    then show ?thesis ..
  qed
  have each: "key_offsets (fst (kvs ! i)) = [(''time'', slice_start time_slice)]
        \<and> key_vars (fst (kvs ! i)) = {fst (clim_vars climatology ! i)}
        \<and> map fst (ds_vars (snd (kvs ! i))) = [fst (clim_vars climatology ! i)]
        \<and> ds_time (snd (kvs ! i)) = chunk_times
        \<and> (\<forall>v \<in> snd ` set (ds_vars (snd (kvs ! i))). length v = length chunk_times)"
    if "i < length kvs" for i
  proof -
    from that len have i: "i < length (clim_vars climatology)" by simp
    from found [OF i] obtain v where
      "map_of (ds_vars chunk) (fst (clim_vars climatology ! i)) = Some (pick v)" ..
    then show ?thesis
      by (simp add: nth [OF i] Key_def pick_len) (simp add: chunk_def)
  qed
  from run len each show ?thesis
    unfolding chunk_times_def by blast
qed

theorem one_fragment_per_variable_witness:
  "clim_hour hourly_climatology = Some [0, 6, 12, 18]
   \<and> getitem_slice four_times (Slice 0 3) =
        [new_year_2017, new_year_2017 + 6 * Timedelta_1h, new_year_2017 + 12 * Timedelta_1h]
   \<and> map dt_dayofyear (getitem_slice four_times (Slice 0 3)) = [1, 1, 1]
   \<and> map dt_hour (getitem_slice four_times (Slice 0 3)) = [0, 6, 12]
   \<and> clim_dayofyear hourly_climatology = [1, 2, 3]
   \<and> select_climatology (Slice 0 3) hourly_climatology four_times =
        Inr [(Key [(''time'', 0)] {''t2m''},
              \<lparr>ds_coords = [''latitude'', ''time''],
               ds_time = [new_year_2017, new_year_2017 + 6 * Timedelta_1h,
                          new_year_2017 + 12 * Timedelta_1h],
               ds_vars = [(''t2m'', [1, 2, 3])]\<rparr>),
             (Key [(''time'', 0)] {''u10''},
              \<lparr>ds_coords = [''latitude'', ''time''],
               ds_time = [new_year_2017, new_year_2017 + 6 * Timedelta_1h,
                          new_year_2017 + 12 * Timedelta_1h],
               ds_vars = [(''u10'', [21, 22, 23])]\<rparr>)]"
proof -
  have hour: "clim_hour hourly_climatology = Some [0, 6, 12, 18]"
    by (simp add: hourly_climatology_def)
  have piece: "getitem_slice four_times (Slice 0 3) =
        [new_year_2017, new_year_2017 + 6 * Timedelta_1h, new_year_2017 + 12 * Timedelta_1h]"
    by code_simp
  have present: "\<forall>t \<in> set (getitem_slice four_times (Slice 0 3)).
         dt_dayofyear t \<in> set (clim_dayofyear hourly_climatology) \<and> dt_hour t \<in> set [0, 6, 12, 18]"
    unfolding piece by code_simp
  have run: "select_climatology (Slice 0 3) hourly_climatology four_times =
        Inr [(Key [(''time'', 0)] {''t2m''},
              \<lparr>ds_coords = [''latitude'', ''time''],
               ds_time = [new_year_2017, new_year_2017 + 6 * Timedelta_1h,
                          new_year_2017 + 12 * Timedelta_1h],
               ds_vars = [(''t2m'', [1, 2, 3])]\<rparr>),
             (Key [(''time'', 0)] {''u10''},
              \<lparr>ds_coords = [''latitude'', ''time''],
               ds_time = [new_year_2017, new_year_2017 + 6 * Timedelta_1h,
                          new_year_2017 + 12 * Timedelta_1h],
               ds_vars = [(''u10'', [21, 22, 23])]\<rparr>)]"
    by code_simp
  have days: "map dt_dayofyear (getitem_slice four_times (Slice 0 3)) = [1, 1, 1]"
    and hours: "map dt_hour (getitem_slice four_times (Slice 0 3)) = [0, 6, 12]"
    unfolding piece by code_simp+
  have labels: "clim_dayofyear hourly_climatology = [1, 2, 3]"
    by (simp add: hourly_climatology_def)
  have unique: "distinct (clim_dayofyear hourly_climatology)" "distinct [0, 6, 12, 18 :: int]"
    by (simp_all add: labels)
  from one_fragment_per_variable [OF hour unique present] hour piece days hours labels run
  show ?thesis by simp
qed

end
